theory Spec2Isabelle
  imports Main
begin

section \<open>Common data: errors, asynchronous outcomes, users and profiles\<close>

text \<open>
  A JavaScript \<^verbatim>\<open>Error\<close> is its message. An \<^verbatim>\<open>async\<close> function, once
  everything it awaits has been decided, either returns a value, throws, or never settles
  because something it awaits never settles.
\<close>

datatype js_error = Error (message: string)

datatype 'a outcome = Returns 'a | Throws js_error | Hangs

text \<open>
  \<^verbatim>\<open>User\<close> is the auth provider's record; the code reads \<^verbatim>\<open>user.id\<close>
  and \<^verbatim>\<open>user.email\<close> (optional in the provider's type).
\<close>

record User =
  u_id :: string
  u_email :: "string option"

text \<open>
  \<^verbatim>\<open>MemberProfile\<close> is declared in \<^verbatim>\<open>../types\<close>; its fields are the ones the
  two places that build a profile (\<^verbatim>\<open>createDemoProfile\<close>,
  \<^verbatim>\<open>createMemberProfile\<close>) and \<^verbatim>\<open>needsPasswordReset\<close> use. A field one of
  the builders leaves out is optional.
\<close>

record MemberProfile =
  profile_id :: string
  user_id :: string
  full_name :: string
  position :: "string option"
  role :: string
  join_date :: string
  created_at :: string
  updated_at :: string
  status :: string
  email_verified :: bool
  registration_date :: string
  last_login :: "string option"
  needs_password_reset :: "bool option"

text \<open>
  The provider's session; \<^verbatim>\<open>session?.user\<close> is \<open>session_user_of\<close>.
\<close>

record Session =
  access_token :: string
  session_user :: "User option"

definition session_user_of :: "Session option \<Rightarrow> User option" where
  "session_user_of session = (case session of None \<Rightarrow> None | Some s \<Rightarrow> session_user s)"

section \<open>The data-access wrapper (api.ts)\<close>

subsection \<open>Values, queries and responses\<close>

text \<open>
  Objects handed to or received from the client library whose TypeScript types live in
  \<^verbatim>\<open>../types\<close> are lists of fields holding JavaScript primitives. \<open>truthy\<close> is
  JavaScript's truthiness and \<open>to_string\<close> the conversion \<^verbatim>\<open>String(v)\<close> on them.
\<close>

datatype jsval = JNull | JBool bool | JNum int | JStr string

type_synonym obj = "(string \<times> jsval) list"

fun truthy :: "jsval \<Rightarrow> bool" where
  "truthy JNull = False"
| "truthy (JBool b) = b"
| "truthy (JNum n) = (n \<noteq> 0)"
| "truthy (JStr s) = (s \<noteq> [])"

text \<open>The decimal digits of a natural number, as a template literal prints it.\<close>

definition digit_char :: "nat \<Rightarrow> char" where
  "digit_char d = ''0123456789'' ! (d mod 10)"

fun string_of_nat :: "nat \<Rightarrow> string" where
  "string_of_nat n =
     (if n < 10 then [digit_char n]
      else string_of_nat (n div 10) @ [digit_char (n mod 10)])"

declare string_of_nat.simps [simp del]

fun to_string :: "jsval \<Rightarrow> string" where
  "to_string JNull = ''null''"
| "to_string (JBool b) = (if b then ''true'' else ''false'')"
| "to_string (JNum n) =
     (if n < 0 then CHR ''-'' # string_of_nat (nat (- n)) else string_of_nat (nat n))"
| "to_string (JStr s) = s"

text \<open>
  \<^verbatim>\<open>s.trim()\<close>, on the ASCII white space characters (tab, line feed, vertical tab, form
  feed, carriage return, space); strings here are byte strings, so the white space
  characters outside ASCII that JavaScript also strips are not represented.
\<close>

definition is_space :: "char \<Rightarrow> bool" where
  "is_space c = (c = CHR 0x09 \<or> c = CHR 0x0A \<or> c = CHR 0x0B \<or> c = CHR 0x0C \<or> c = CHR 0x0D
                 \<or> c = CHR '' '')"

definition trim :: "string \<Rightarrow> string" where
  "trim s = rev (dropWhile is_space (rev (dropWhile is_space s)))"

text \<open>\<^verbatim>\<open>s.split('T')[0]\<close>: the part of \<open>s\<close> before its first \<^verbatim>\<open>T\<close>.\<close>

definition before_T :: "string \<Rightarrow> string" where
  "before_T s = takeWhile (\<lambda>c. c \<noteq> CHR ''T'') s"

text \<open>
  A query under construction by the client library's builder: \<^verbatim>\<open>from(t)\<close> starts
  it, \<^verbatim>\<open>select/insert/update/upsert/delete\<close> fix what it does (a \<^verbatim>\<open>select()\<close>
  after a write asks for the written rows back), the others add a filter, an ordering, a
  row limit or the single-row projection. Building a query sends nothing; it is sent when
  it is awaited.
\<close>

datatype action = Select string | Insert obj | Update obj | Upsert obj | Delete

datatype filter = Eq string jsval | Gte string jsval

record query =
  table :: string
  action :: "action option"
  returning :: "string option"
  filters :: "filter list"
  ordering :: "(string \<times> bool) list"
  row_limit :: "nat option"
  is_single :: bool

definition from_q :: "string \<Rightarrow> query" where
  "from_q t = \<lparr> table = t, action = None, returning = None, filters = [], ordering = [],
               row_limit = None, is_single = False \<rparr>"

definition select :: "string \<Rightarrow> query \<Rightarrow> query" where
  "select columns q =
     (case action q of
        None \<Rightarrow> q\<lparr> action := Some (Select columns) \<rparr>
      | Some a \<Rightarrow> q\<lparr> returning := Some columns \<rparr>)"

definition insert_q :: "obj \<Rightarrow> query \<Rightarrow> query" where
  "insert_q values q = q\<lparr> action := Some (Insert values) \<rparr>"

definition update :: "obj \<Rightarrow> query \<Rightarrow> query" where
  "update values q = q\<lparr> action := Some (Update values) \<rparr>"

definition upsert :: "obj \<Rightarrow> query \<Rightarrow> query" where
  "upsert values q = q\<lparr> action := Some (Upsert values) \<rparr>"

definition delete :: "query \<Rightarrow> query" where
  "delete q = q\<lparr> action := Some Delete \<rparr>"

definition eq :: "string \<Rightarrow> jsval \<Rightarrow> query \<Rightarrow> query" where
  "eq column v q = q\<lparr> filters := filters q @ [Eq column v] \<rparr>"

definition gte :: "string \<Rightarrow> jsval \<Rightarrow> query \<Rightarrow> query" where
  "gte column v q = q\<lparr> filters := filters q @ [Gte column v] \<rparr>"

definition order_q :: "string \<Rightarrow> bool \<Rightarrow> query \<Rightarrow> query" where
  "order_q column ascending q = q\<lparr> ordering := ordering q @ [(column, ascending)] \<rparr>"

definition limit :: "nat \<Rightarrow> query \<Rightarrow> query" where
  "limit n q = q\<lparr> row_limit := Some n \<rparr>"

definition single :: "query \<Rightarrow> query" where
  "single q = q\<lparr> is_single := True \<rparr>"

text \<open>
  What the client library resolves a query with: \<^verbatim>\<open>{data, error}\<close>, where
  \<^verbatim>\<open>data\<close> is null, one row or an array of rows, and \<^verbatim>\<open>error\<close> is null or an
  object of which the code reads \<^verbatim>\<open>message\<close>. The row type \<open>'r\<close> is the entity type
  the operation casts to.
\<close>

datatype 'r data = Null | Row 'r | Rows "'r list"

datatype PostgrestError = PostgrestError (pg_message: string)

record 'r response =
  resp_data :: "'r data"
  resp_error :: "PostgrestError option"

subsection \<open>Promises and the timeout race\<close>

text \<open>
  A promise, seen from the moment it is created: it stays pending for ever, or it is
  fulfilled or rejected some number of milliseconds later. \<^verbatim>\<open>Promise.race([p, q])\<close>
  settles as the one that settles first; when both settle in the same millisecond the model
  lets the first element of the array win, as \<^verbatim>\<open>Promise.race\<close> does for promises
  settled in the same turn.
\<close>

datatype 'a promise = Pending | Resolves nat 'a | Rejects nat js_error

fun settles_at :: "'a promise \<Rightarrow> nat option" where
  "settles_at Pending = None"
| "settles_at (Resolves t v) = Some t"
| "settles_at (Rejects t e) = Some t"

definition race :: "'a promise \<Rightarrow> 'a promise \<Rightarrow> 'a promise" where
  "race p q =
     (case settles_at p of
        None \<Rightarrow> q
      | Some s \<Rightarrow> (case settles_at q of None \<Rightarrow> p | Some t \<Rightarrow> if s \<le> t then p else q))"

fun await :: "'a promise \<Rightarrow> 'a outcome" where
  "await Pending = Hangs"
| "await (Resolves t v) = Returns v"
| "await (Rejects t e) = Throws e"

text \<open>
  \<^verbatim>\<open>withTimeout\<close> of the \<^verbatim>\<open>api\<close> module (lines 5-12, default bound 90000) and of
  the \<^verbatim>\<open>cmsApi\<close> module (lines 334-342, default bound 60000). The second argument is
  the optional \<^verbatim>\<open>timeoutMs\<close>.
\<close>

definition timeout_error :: "nat \<Rightarrow> js_error" where
  "timeout_error timeoutMs = Error (''Request timeout after '' @ string_of_nat timeoutMs @ ''ms'')"

definition withTimeout :: "'a promise \<Rightarrow> nat option \<Rightarrow> 'a promise" where
  "withTimeout promise timeoutMs_arg =
     (let timeoutMs = (case timeoutMs_arg of None \<Rightarrow> 90000 | Some ms \<Rightarrow> ms)
      in race promise (Rejects timeoutMs (timeout_error timeoutMs)))"

definition cms_withTimeout :: "'a promise \<Rightarrow> nat option \<Rightarrow> 'a promise" where
  "cms_withTimeout promise timeoutMs_arg =
     (let timeoutMs = (case timeoutMs_arg of None \<Rightarrow> 60000 | Some ms \<Rightarrow> ms)
      in race promise (Rejects timeoutMs (timeout_error timeoutMs)))"

subsection \<open>Configuration, clock and the record of what was sent\<close>

text \<open>
  \<^verbatim>\<open>import.meta.env\<close>: the two connection parameters, each possibly undefined.
  \<^verbatim>\<open>shouldUseDemoMode\<close> (lines 14-17 and 344-347, the same text in both modules)
  negates them, so an empty string counts as absent too.
\<close>

record env =
  VITE_SUPABASE_URL :: "string option"
  VITE_SUPABASE_ANON_KEY :: "string option"

definition falsy :: "string option \<Rightarrow> bool" where
  "falsy v = (case v of None \<Rightarrow> True | Some s \<Rightarrow> s = [])"

definition shouldUseDemoMode :: "env \<Rightarrow> bool" where
  "shouldUseDemoMode e = (falsy (VITE_SUPABASE_URL e) \<or> falsy (VITE_SUPABASE_ANON_KEY e))"

definition demo_mode_error :: js_error where
  "demo_mode_error = Error ''Demo mode - no database connection''"

text \<open>
  The clock: the \<open>k\<close>-th reading taken during one call (\<^verbatim>\<open>Date.now()\<close> or
  \<^verbatim>\<open>new Date()\<close>), with its \<^verbatim>\<open>toISOString()\<close>.
\<close>

record instant =
  epoch_ms :: nat
  iso_string :: string

text \<open>
  Everything an operation hands to the outside, in order: a query given to the database
  client, a session lookup, an HTTP request.
\<close>

record request =
  url :: string
  http_method :: string
  headers :: "(string \<times> string) list"
  body :: obj

datatype io = Query query | GetSession | Fetch request

record http_response =
  ok :: bool
  json :: "obj outcome"

text \<open>
  The lines every operation repeats after awaiting its query:
  \<^verbatim>\<open>if (error) throw new Error(`<failure>${error.message}`); return <ret>(data)\<close>,
  inside a \<^verbatim>\<open>try\<close> whose \<^verbatim>\<open>catch\<close> logs and rethrows. \<open>awaited\<close> is how the
  \<^verbatim>\<open>await\<close> ended.
\<close>

definition settle :: "'r response outcome \<Rightarrow> string \<Rightarrow> ('r data \<Rightarrow> 'a) \<Rightarrow> 'a outcome" where
  "settle awaited failure ret =
     (case awaited of
        Hangs \<Rightarrow> Hangs
      | Throws e \<Rightarrow> Throws e
      | Returns r \<Rightarrow>
          (case resp_error r of
             Some err \<Rightarrow> Throws (Error (failure @ pg_message err))
           | None \<Rightarrow> Returns (ret (resp_data r))))"

text \<open>
  \<^verbatim>\<open>data && data.length > 0 ? data[0] : null\<close>; \<open>no_value\<close> is the result of the
  operations that return nothing.
\<close>

fun first_row :: "'r data \<Rightarrow> 'r option" where
  "first_row (Rows (x # xs)) = Some x"
| "first_row d = None"

definition no_value :: "'r data \<Rightarrow> unit" where
  "no_value d = ()"

subsection \<open>The operations of \<^verbatim>\<open>api\<close>\<close>

text \<open>
  Each operation takes the configuration \<open>e\<close> and \<open>db\<close>, what the database client does
  with a query it is given; it returns how the call ends and what it sent. The builder
  calls of a query are listed in the order the source chains them. Member-profile
  operations cast rows to \<^verbatim>\<open>MemberProfile\<close>; the other row types are declared in
  \<^verbatim>\<open>../types\<close> and stay a type parameter.
\<close>

definition chain :: "query \<Rightarrow> (query \<Rightarrow> query) list \<Rightarrow> query" where
  "chain q calls = fold (\<lambda>call. call) calls q"

text \<open>
  \<^verbatim>\<open>getMemberProfile\<close>, lines 21-47.
\<close>

definition getMemberProfile ::
  "env \<Rightarrow> (query \<Rightarrow> MemberProfile response promise) \<Rightarrow> string
     \<Rightarrow> MemberProfile option outcome \<times> io list" where
  "getMemberProfile e db userId =
     (if shouldUseDemoMode e then (Throws demo_mode_error, [])
      else
        let query = chain (from_q ''member_profiles'')
                  [select ''*'',
                   eq ''user_id'' (JStr userId),
                   limit 1]
        in (settle (await (withTimeout (db query) (Some 60000)))
              ''Failed to fetch profile: '' first_row,
            [Query query]))"

text \<open>
  \<^verbatim>\<open>createMemberProfile\<close>, lines 49-93. In demo mode the profile is built locally; the
  clock is read five times (\<^verbatim>\<open>Date.now()\<close>, then four \<^verbatim>\<open>new Date()\<close>), and no
  \<^verbatim>\<open>position\<close> or \<^verbatim>\<open>last_login\<close> is set.
\<close>

definition createMemberProfile ::
  "env \<Rightarrow> (query \<Rightarrow> MemberProfile response promise) \<Rightarrow> (nat \<Rightarrow> instant) \<Rightarrow> string \<Rightarrow> string
     \<Rightarrow> MemberProfile data outcome \<times> io list" where
  "createMemberProfile e db clock userId fullName =
     (if shouldUseDemoMode e
      then
        let demoProfile =
              \<lparr> profile_id = ''demo-'' @ string_of_nat (epoch_ms (clock 0)),
                user_id = userId,
                full_name = fullName,
                position = None,
                role = ''member'',
                join_date = before_T (iso_string (clock 1)),
                created_at = iso_string (clock 2),
                updated_at = iso_string (clock 3),
                status = ''pending'',
                email_verified = False,
                registration_date = iso_string (clock 4),
                last_login = None,
                needs_password_reset = None \<rparr>
        in (Returns (Row demoProfile), [])
      else
        let query = chain (from_q ''member_profiles'')
                  [insert_q [(''user_id'', JStr userId),
                             (''full_name'', JStr (trim fullName)),
                             (''role'', JStr ''member''),
                             (''status'', JStr ''pending''),
                             (''registration_date'', JStr (iso_string (clock 0))),
                             (''email_verified'', JBool False)],
                   select ''*'',
                   single]
        in (settle (await (withTimeout (db query) (Some 60000)))
              ''Failed to create profile: '' id,
            [Query query]))"

text \<open>
  \<^verbatim>\<open>adminCreateMemberProfile\<close>, lines 95-120.
\<close>

definition adminCreateMemberProfile ::
  "env \<Rightarrow> (query \<Rightarrow> MemberProfile response promise) \<Rightarrow> obj
     \<Rightarrow> MemberProfile data outcome \<times> io list" where
  "adminCreateMemberProfile e db profile =
     (let query = chain (from_q ''member_profiles'')
                [insert_q profile,
                 select ''*'',
                 single]
      in (settle (await (withTimeout (db query) (Some 60000)))
            ''Failed to create profile: '' id,
          [Query query]))"

text \<open>
  \<^verbatim>\<open>getAllMembers\<close>, lines 122-146.
\<close>

definition getAllMembers ::
  "env \<Rightarrow> (query \<Rightarrow> MemberProfile response promise)
     \<Rightarrow> MemberProfile data outcome \<times> io list" where
  "getAllMembers e db =
     (if shouldUseDemoMode e then (Throws demo_mode_error, [])
      else
        let query = chain (from_q ''member_profiles'')
                  [select ''*'',
                   order_q ''full_name'' True]
        in (settle (await (withTimeout (db query) (Some 90000)))
              ''Failed to fetch members: '' id,
            [Query query]))"

text \<open>
  \<^verbatim>\<open>updateMemberProfile\<close>, lines 148-169.
\<close>

definition updateMemberProfile ::
  "env \<Rightarrow> (query \<Rightarrow> MemberProfile response promise) \<Rightarrow> string
     \<Rightarrow> obj \<Rightarrow> MemberProfile data outcome \<times> io list" where
  "updateMemberProfile e db userId profile =
     (let query = chain (from_q ''member_profiles'')
                [update profile,
                 eq ''user_id'' (JStr userId),
                 select ''*'',
                 single]
      in (settle (await (withTimeout (db query) (Some 60000)))
            ''Failed to update profile: '' id,
          [Query query]))"

text \<open>
  \<^verbatim>\<open>deleteMemberProfile\<close>, lines 171-188.
\<close>

definition deleteMemberProfile ::
  "env \<Rightarrow> (query \<Rightarrow> MemberProfile response promise) \<Rightarrow> string
     \<Rightarrow> unit outcome \<times> io list" where
  "deleteMemberProfile e db userId =
     (let query = chain (from_q ''member_profiles'')
                [delete,
                 eq ''user_id'' (JStr userId)]
      in (settle (await (withTimeout (db query) (Some 60000)))
            ''Failed to delete profile: '' no_value,
          [Query query]))"

text \<open>
  \<^verbatim>\<open>deleteUserAndProfile\<close>, lines 191-217: a session lookup, then an HTTP POST to the
  \<^verbatim>\<open>delete-user\<close> function; no demo-mode test and no timeout. \<open>getSession\<close> and
  \<open>fetch\<close> are what the provider and the network do. The body is the object before
  \<^verbatim>\<open>JSON.stringify\<close>. An undefined URL prints as \<^verbatim>\<open>undefined\<close> in the template.
\<close>

definition deleteUserAndProfile ::
  "env \<Rightarrow> (Session option \<times> js_error option) outcome \<Rightarrow> (request \<Rightarrow> http_response outcome)
     \<Rightarrow> string \<Rightarrow> obj outcome \<times> io list" where
  "deleteUserAndProfile e getSession fetch userId =
     (case getSession of
        Hangs \<Rightarrow> (Hangs, [GetSession])
      | Throws err \<Rightarrow> (Throws err, [GetSession])
      | Returns (session, err) \<Rightarrow>
          (case session of
             None \<Rightarrow> (Throws (Error ''Not authenticated''), [GetSession])
           | Some s \<Rightarrow>
               let req = \<lparr> url = (case VITE_SUPABASE_URL e of None \<Rightarrow> ''undefined'' | Some u \<Rightarrow> u)
                                 @ ''/functions/v1/delete-user'',
                           http_method = ''POST'',
                           headers = [(''Authorization'', ''Bearer '' @ access_token s),
                                      (''Content-Type'', ''application/json'')],
                           body = [(''user_id'', JStr userId)] \<rparr>
               in (case fetch req of
                     Hangs \<Rightarrow> Hangs
                   | Throws err \<Rightarrow> Throws err
                   | Returns response \<Rightarrow>
                       if \<not> ok response
                       then (case json response of
                               Hangs \<Rightarrow> Hangs
                             | Throws err \<Rightarrow> Throws err
                             | Returns errorData \<Rightarrow>
                                 Throws (Error (case map_of errorData ''error'' of
                                                  None \<Rightarrow> ''Failed to delete user''
                                                | Some v \<Rightarrow> if truthy v then to_string v
                                                            else ''Failed to delete user'')))
                       else json response,
                   [GetSession, Fetch req])))"

text \<open>
  \<^verbatim>\<open>getLodgeDocuments\<close>, lines 220-251.
  The optional \<^verbatim>\<open>category\<close> adds its filter when it is a non-empty string.
\<close>

definition getLodgeDocuments ::
  "env \<Rightarrow> (query \<Rightarrow> 'r response promise) \<Rightarrow> string option
     \<Rightarrow> 'r data outcome \<times> io list" where
  "getLodgeDocuments e db category =
     (if shouldUseDemoMode e then (Throws demo_mode_error, [])
      else
        let query0 = chain (from_q ''lodge_documents'') [select ''*'', order_q ''created_at'' False];
            query = (case category of
                       None \<Rightarrow> query0
                     | Some c \<Rightarrow> if c \<noteq> [] then eq ''category'' (JStr c) query0 else query0)
        in (settle (await (withTimeout (db query) (Some 60000)))
              ''Failed to fetch documents: '' id,
            [Query query]))"

text \<open>
  \<^verbatim>\<open>createDocument\<close>, lines 253-273.
\<close>

definition createDocument ::
  "env \<Rightarrow> (query \<Rightarrow> 'r response promise) \<Rightarrow> obj
     \<Rightarrow> 'r data outcome \<times> io list" where
  "createDocument e db document =
     (let query = chain (from_q ''lodge_documents'')
                [insert_q document,
                 select ''*'',
                 single]
      in (settle (await (withTimeout (db query) (Some 60000)))
            ''Failed to create document: '' id,
          [Query query]))"

text \<open>
  \<^verbatim>\<open>getMeetingMinutes\<close>, lines 276-300.
\<close>

definition getMeetingMinutes ::
  "env \<Rightarrow> (query \<Rightarrow> 'r response promise)
     \<Rightarrow> 'r data outcome \<times> io list" where
  "getMeetingMinutes e db =
     (if shouldUseDemoMode e then (Throws demo_mode_error, [])
      else
        let query = chain (from_q ''meeting_minutes'')
                  [select ''*'',
                   order_q ''meeting_date'' False]
        in (settle (await (withTimeout (db query) (Some 60000)))
              ''Failed to fetch meeting minutes: '' id,
            [Query query]))"

text \<open>
  \<^verbatim>\<open>createMinutes\<close>, lines 302-322.
\<close>

definition createMinutes ::
  "env \<Rightarrow> (query \<Rightarrow> 'r response promise) \<Rightarrow> obj
     \<Rightarrow> 'r data outcome \<times> io list" where
  "createMinutes e db minutes =
     (let query = chain (from_q ''meeting_minutes'')
                [insert_q minutes,
                 select ''*'',
                 single]
      in (settle (await (withTimeout (db query) (Some 60000)))
            ''Failed to create meeting minutes: '' id,
          [Query query]))"

subsection \<open>The operations of \<^verbatim>\<open>cmsApi\<close>\<close>

text \<open>
  Every operation of this module tests \<^verbatim>\<open>shouldUseDemoMode()\<close> first and calls
  \<^verbatim>\<open>withTimeout(query)\<close> without a bound, that is, with the module's default.
  \<open>spread_with k v o\<close> is the object \<^verbatim>\<open>{...o, k: v}\<close>: the key keeps its place when
  \<open>o\<close> has it and is added at the end otherwise.
\<close>

fun spread_with :: "string \<Rightarrow> jsval \<Rightarrow> obj \<Rightarrow> obj" where
  "spread_with k v [] = [(k, v)]"
| "spread_with k v ((k', v') # kvs) =
     (if k = k' then (k, v) # kvs else (k', v') # spread_with k v kvs)"

text \<open>
  \<^verbatim>\<open>getEvents\<close>, lines 351-374.
\<close>

definition getEvents ::
  "env \<Rightarrow> (query \<Rightarrow> 'r response promise)
     \<Rightarrow> 'r data outcome \<times> io list" where
  "getEvents e db =
     (if shouldUseDemoMode e then (Throws demo_mode_error, [])
      else
        let query = chain (from_q ''events'')
                  [select ''*'',
                   order_q ''event_date'' True]
        in (settle (await (cms_withTimeout (db query) None))
              ''Failed to fetch events: '' id,
            [Query query]))"

text \<open>
  \<^verbatim>\<open>getNextUpcomingEvent\<close>, lines 376-403; the clock is read once.
\<close>

definition getNextUpcomingEvent ::
  "env \<Rightarrow> (query \<Rightarrow> 'r response promise) \<Rightarrow> (nat \<Rightarrow> instant)
     \<Rightarrow> 'r option outcome \<times> io list" where
  "getNextUpcomingEvent e db clock =
     (if shouldUseDemoMode e then (Throws demo_mode_error, [])
      else
        let now = iso_string (clock 0);
            query = chain (from_q ''events'')
                  [select ''*'',
                   eq ''is_past_event'' (JBool False),
                   gte ''event_date'' (JStr now),
                   order_q ''event_date'' True,
                   limit 1]
        in (settle (await (cms_withTimeout (db query) None))
              ''Failed to fetch next upcoming event: '' first_row,
            [Query query]))"

text \<open>
  \<^verbatim>\<open>createEvent\<close>, lines 405-429.
\<close>

definition createEvent ::
  "env \<Rightarrow> (query \<Rightarrow> 'r response promise) \<Rightarrow> obj
     \<Rightarrow> 'r data outcome \<times> io list" where
  "createEvent e db event =
     (if shouldUseDemoMode e then (Throws demo_mode_error, [])
      else
        let query = chain (from_q ''events'')
                  [insert_q event,
                   select ''*'',
                   single]
        in (settle (await (cms_withTimeout (db query) None))
              ''Failed to create event: '' id,
            [Query query]))"

text \<open>
  \<^verbatim>\<open>updateEvent\<close>, lines 431-456.
  \<open>ident\<close> is the parameter \<^verbatim>\<open>id\<close>.
\<close>

definition updateEvent ::
  "env \<Rightarrow> (query \<Rightarrow> 'r response promise) \<Rightarrow> string
     \<Rightarrow> obj \<Rightarrow> 'r data outcome \<times> io list" where
  "updateEvent e db ident event =
     (if shouldUseDemoMode e then (Throws demo_mode_error, [])
      else
        let query = chain (from_q ''events'')
                  [update event,
                   eq ''id'' (JStr ident),
                   select ''*'',
                   single]
        in (settle (await (cms_withTimeout (db query) None))
              ''Failed to update event: '' id,
            [Query query]))"

text \<open>
  \<^verbatim>\<open>deleteEvent\<close>, lines 458-479.
  \<open>ident\<close> is the parameter \<^verbatim>\<open>id\<close>.
\<close>

definition deleteEvent ::
  "env \<Rightarrow> (query \<Rightarrow> 'r response promise) \<Rightarrow> string
     \<Rightarrow> unit outcome \<times> io list" where
  "deleteEvent e db ident =
     (if shouldUseDemoMode e then (Throws demo_mode_error, [])
      else
        let query = chain (from_q ''events'')
                  [delete,
                   eq ''id'' (JStr ident)]
        in (settle (await (cms_withTimeout (db query) None))
              ''Failed to delete event: '' no_value,
            [Query query]))"

text \<open>
  \<^verbatim>\<open>getNewsArticles\<close>, lines 482-505.
\<close>

definition getNewsArticles ::
  "env \<Rightarrow> (query \<Rightarrow> 'r response promise)
     \<Rightarrow> 'r data outcome \<times> io list" where
  "getNewsArticles e db =
     (if shouldUseDemoMode e then (Throws demo_mode_error, [])
      else
        let query = chain (from_q ''news_articles'')
                  [select ''*'',
                   order_q ''publish_date'' False]
        in (settle (await (cms_withTimeout (db query) None))
              ''Failed to fetch news articles: '' id,
            [Query query]))"

text \<open>
  \<^verbatim>\<open>createNewsArticle\<close>, lines 507-537. The spread copies the article and sets
  \<^verbatim>\<open>publish_date\<close> to the article's own value when that is truthy, else to today's date;
  the clock is read only in the second case.
\<close>

definition createNewsArticle ::
  "env \<Rightarrow> (query \<Rightarrow> 'r response promise) \<Rightarrow> (nat \<Rightarrow> instant) \<Rightarrow> obj
     \<Rightarrow> 'r data outcome \<times> io list" where
  "createNewsArticle e db clock article =
     (if shouldUseDemoMode e then (Throws demo_mode_error, [])
      else
        let publish_date =
              (case map_of article ''publish_date'' of
                 Some v \<Rightarrow> if truthy v then v else JStr (before_T (iso_string (clock 0)))
               | None \<Rightarrow> JStr (before_T (iso_string (clock 0))));
            formattedArticle = spread_with ''publish_date'' publish_date article;
            query = chain (from_q ''news_articles'')
                  [insert_q formattedArticle, select ''*'', single]
        in (settle (await (cms_withTimeout (db query) None))
              ''Failed to create news article: '' id,
            [Query query]))"

text \<open>
  \<^verbatim>\<open>updateNewsArticle\<close>, lines 539-564.
  \<open>ident\<close> is the parameter \<^verbatim>\<open>id\<close>.
\<close>

definition updateNewsArticle ::
  "env \<Rightarrow> (query \<Rightarrow> 'r response promise) \<Rightarrow> string
     \<Rightarrow> obj \<Rightarrow> 'r data outcome \<times> io list" where
  "updateNewsArticle e db ident article =
     (if shouldUseDemoMode e then (Throws demo_mode_error, [])
      else
        let query = chain (from_q ''news_articles'')
                  [update article,
                   eq ''id'' (JStr ident),
                   select ''*'',
                   single]
        in (settle (await (cms_withTimeout (db query) None))
              ''Failed to update news article: '' id,
            [Query query]))"

text \<open>
  \<^verbatim>\<open>deleteNewsArticle\<close>, lines 566-587.
  \<open>ident\<close> is the parameter \<^verbatim>\<open>id\<close>.
\<close>

definition deleteNewsArticle ::
  "env \<Rightarrow> (query \<Rightarrow> 'r response promise) \<Rightarrow> string
     \<Rightarrow> unit outcome \<times> io list" where
  "deleteNewsArticle e db ident =
     (if shouldUseDemoMode e then (Throws demo_mode_error, [])
      else
        let query = chain (from_q ''news_articles'')
                  [delete,
                   eq ''id'' (JStr ident)]
        in (settle (await (cms_withTimeout (db query) None))
              ''Failed to delete news article: '' no_value,
            [Query query]))"

text \<open>
  \<^verbatim>\<open>getOfficers\<close>, lines 590-614.
\<close>

definition getOfficers ::
  "env \<Rightarrow> (query \<Rightarrow> 'r response promise)
     \<Rightarrow> 'r data outcome \<times> io list" where
  "getOfficers e db =
     (if shouldUseDemoMode e then (Throws demo_mode_error, [])
      else
        let query = chain (from_q ''officers'')
                  [select ''*'',
                   eq ''is_active'' (JBool True),
                   order_q ''sort_order'' True]
        in (settle (await (cms_withTimeout (db query) None))
              ''Failed to fetch officers: '' id,
            [Query query]))"

text \<open>
  \<^verbatim>\<open>createOfficer\<close>, lines 616-640.
\<close>

definition createOfficer ::
  "env \<Rightarrow> (query \<Rightarrow> 'r response promise) \<Rightarrow> obj
     \<Rightarrow> 'r data outcome \<times> io list" where
  "createOfficer e db officer =
     (if shouldUseDemoMode e then (Throws demo_mode_error, [])
      else
        let query = chain (from_q ''officers'')
                  [insert_q officer,
                   select ''*'',
                   single]
        in (settle (await (cms_withTimeout (db query) None))
              ''Failed to create officer: '' id,
            [Query query]))"

text \<open>
  \<^verbatim>\<open>updateOfficer\<close>, lines 642-667.
  \<open>ident\<close> is the parameter \<^verbatim>\<open>id\<close>.
\<close>

definition updateOfficer ::
  "env \<Rightarrow> (query \<Rightarrow> 'r response promise) \<Rightarrow> string
     \<Rightarrow> obj \<Rightarrow> 'r data outcome \<times> io list" where
  "updateOfficer e db ident officer =
     (if shouldUseDemoMode e then (Throws demo_mode_error, [])
      else
        let query = chain (from_q ''officers'')
                  [update officer,
                   eq ''id'' (JStr ident),
                   select ''*'',
                   single]
        in (settle (await (cms_withTimeout (db query) None))
              ''Failed to update officer: '' id,
            [Query query]))"

text \<open>
  \<^verbatim>\<open>deleteOfficer\<close>, lines 669-690.
  \<open>ident\<close> is the parameter \<^verbatim>\<open>id\<close>.
\<close>

definition deleteOfficer ::
  "env \<Rightarrow> (query \<Rightarrow> 'r response promise) \<Rightarrow> string
     \<Rightarrow> unit outcome \<times> io list" where
  "deleteOfficer e db ident =
     (if shouldUseDemoMode e then (Throws demo_mode_error, [])
      else
        let query = chain (from_q ''officers'')
                  [delete,
                   eq ''id'' (JStr ident)]
        in (settle (await (cms_withTimeout (db query) None))
              ''Failed to delete officer: '' no_value,
            [Query query]))"

text \<open>
  \<^verbatim>\<open>getTestimonials\<close>, lines 693-717.
\<close>

definition getTestimonials ::
  "env \<Rightarrow> (query \<Rightarrow> 'r response promise)
     \<Rightarrow> 'r data outcome \<times> io list" where
  "getTestimonials e db =
     (if shouldUseDemoMode e then (Throws demo_mode_error, [])
      else
        let query = chain (from_q ''testimonials'')
                  [select ''*'',
                   eq ''is_published'' (JBool True),
                   order_q ''sort_order'' True]
        in (settle (await (cms_withTimeout (db query) None))
              ''Failed to fetch testimonials: '' id,
            [Query query]))"

text \<open>
  \<^verbatim>\<open>createTestimonial\<close>, lines 719-743.
\<close>

definition createTestimonial ::
  "env \<Rightarrow> (query \<Rightarrow> 'r response promise) \<Rightarrow> obj
     \<Rightarrow> 'r data outcome \<times> io list" where
  "createTestimonial e db testimonial =
     (if shouldUseDemoMode e then (Throws demo_mode_error, [])
      else
        let query = chain (from_q ''testimonials'')
                  [insert_q testimonial,
                   select ''*'',
                   single]
        in (settle (await (cms_withTimeout (db query) None))
              ''Failed to create testimonial: '' id,
            [Query query]))"

text \<open>
  \<^verbatim>\<open>updateTestimonial\<close>, lines 745-770.
  \<open>ident\<close> is the parameter \<^verbatim>\<open>id\<close>.
\<close>

definition updateTestimonial ::
  "env \<Rightarrow> (query \<Rightarrow> 'r response promise) \<Rightarrow> string
     \<Rightarrow> obj \<Rightarrow> 'r data outcome \<times> io list" where
  "updateTestimonial e db ident testimonial =
     (if shouldUseDemoMode e then (Throws demo_mode_error, [])
      else
        let query = chain (from_q ''testimonials'')
                  [update testimonial,
                   eq ''id'' (JStr ident),
                   select ''*'',
                   single]
        in (settle (await (cms_withTimeout (db query) None))
              ''Failed to update testimonial: '' id,
            [Query query]))"

text \<open>
  \<^verbatim>\<open>deleteTestimonial\<close>, lines 772-793.
  \<open>ident\<close> is the parameter \<^verbatim>\<open>id\<close>.
\<close>

definition deleteTestimonial ::
  "env \<Rightarrow> (query \<Rightarrow> 'r response promise) \<Rightarrow> string
     \<Rightarrow> unit outcome \<times> io list" where
  "deleteTestimonial e db ident =
     (if shouldUseDemoMode e then (Throws demo_mode_error, [])
      else
        let query = chain (from_q ''testimonials'')
                  [delete,
                   eq ''id'' (JStr ident)]
        in (settle (await (cms_withTimeout (db query) None))
              ''Failed to delete testimonial: '' no_value,
            [Query query]))"

text \<open>
  \<^verbatim>\<open>getFAQItems\<close>, lines 796-820.
\<close>

definition getFAQItems ::
  "env \<Rightarrow> (query \<Rightarrow> 'r response promise)
     \<Rightarrow> 'r data outcome \<times> io list" where
  "getFAQItems e db =
     (if shouldUseDemoMode e then (Throws demo_mode_error, [])
      else
        let query = chain (from_q ''faq_items'')
                  [select ''*'',
                   eq ''is_published'' (JBool True),
                   order_q ''sort_order'' True]
        in (settle (await (cms_withTimeout (db query) None))
              ''Failed to fetch FAQ items: '' id,
            [Query query]))"

text \<open>
  \<^verbatim>\<open>createFAQItem\<close>, lines 822-846.
\<close>

definition createFAQItem ::
  "env \<Rightarrow> (query \<Rightarrow> 'r response promise) \<Rightarrow> obj
     \<Rightarrow> 'r data outcome \<times> io list" where
  "createFAQItem e db faq =
     (if shouldUseDemoMode e then (Throws demo_mode_error, [])
      else
        let query = chain (from_q ''faq_items'')
                  [insert_q faq,
                   select ''*'',
                   single]
        in (settle (await (cms_withTimeout (db query) None))
              ''Failed to create FAQ item: '' id,
            [Query query]))"

text \<open>
  \<^verbatim>\<open>updateFAQItem\<close>, lines 848-873.
  \<open>ident\<close> is the parameter \<^verbatim>\<open>id\<close>.
\<close>

definition updateFAQItem ::
  "env \<Rightarrow> (query \<Rightarrow> 'r response promise) \<Rightarrow> string
     \<Rightarrow> obj \<Rightarrow> 'r data outcome \<times> io list" where
  "updateFAQItem e db ident faq =
     (if shouldUseDemoMode e then (Throws demo_mode_error, [])
      else
        let query = chain (from_q ''faq_items'')
                  [update faq,
                   eq ''id'' (JStr ident),
                   select ''*'',
                   single]
        in (settle (await (cms_withTimeout (db query) None))
              ''Failed to update FAQ item: '' id,
            [Query query]))"

text \<open>
  \<^verbatim>\<open>deleteFAQItem\<close>, lines 875-896.
  \<open>ident\<close> is the parameter \<^verbatim>\<open>id\<close>.
\<close>

definition deleteFAQItem ::
  "env \<Rightarrow> (query \<Rightarrow> 'r response promise) \<Rightarrow> string
     \<Rightarrow> unit outcome \<times> io list" where
  "deleteFAQItem e db ident =
     (if shouldUseDemoMode e then (Throws demo_mode_error, [])
      else
        let query = chain (from_q ''faq_items'')
                  [delete,
                   eq ''id'' (JStr ident)]
        in (settle (await (cms_withTimeout (db query) None))
              ''Failed to delete FAQ item: '' no_value,
            [Query query]))"

text \<open>
  \<^verbatim>\<open>getSiteSettings\<close>, lines 899-922.
\<close>

definition getSiteSettings ::
  "env \<Rightarrow> (query \<Rightarrow> 'r response promise)
     \<Rightarrow> 'r data outcome \<times> io list" where
  "getSiteSettings e db =
     (if shouldUseDemoMode e then (Throws demo_mode_error, [])
      else
        let query = chain (from_q ''site_settings'')
                  [select ''*'',
                   order_q ''setting_key'' True]
        in (settle (await (cms_withTimeout (db query) None))
              ''Failed to fetch site settings: '' id,
            [Query query]))"

text \<open>
  \<^verbatim>\<open>updateSiteSetting\<close>, lines 924-949.
  \<open>val\<close> is the parameter \<^verbatim>\<open>value\<close>.
\<close>

definition updateSiteSetting ::
  "env \<Rightarrow> (query \<Rightarrow> 'r response promise) \<Rightarrow> string
     \<Rightarrow> string \<Rightarrow> 'r data outcome \<times> io list" where
  "updateSiteSetting e db key val =
     (if shouldUseDemoMode e then (Throws demo_mode_error, [])
      else
        let query = chain (from_q ''site_settings'')
                  [update [(''setting_value'', JStr val)],
                   eq ''setting_key'' (JStr key),
                   select ''*'',
                   single]
        in (settle (await (cms_withTimeout (db query) None))
              ''Failed to update site setting: '' id,
            [Query query]))"

text \<open>
  \<^verbatim>\<open>getPageContent\<close>, lines 952-980.
  The optional \<^verbatim>\<open>pageName\<close> adds its filter when it is a non-empty string.
\<close>

definition getPageContent ::
  "env \<Rightarrow> (query \<Rightarrow> 'r response promise) \<Rightarrow> string option
     \<Rightarrow> 'r data outcome \<times> io list" where
  "getPageContent e db pageName =
     (if shouldUseDemoMode e then (Throws demo_mode_error, [])
      else
        let query0 = chain (from_q ''page_content'') [select ''*''];
            query1 = (case pageName of
                        None \<Rightarrow> query0
                      | Some n \<Rightarrow> if n \<noteq> [] then eq ''page_name'' (JStr n) query0 else query0);
            query = order_q ''page_name'' True query1
        in (settle (await (cms_withTimeout (db query) None))
              ''Failed to fetch page content: '' id,
            [Query query]))"

text \<open>
  \<^verbatim>\<open>updatePageContent\<close>, lines 982-1011.
\<close>

definition updatePageContent ::
  "env \<Rightarrow> (query \<Rightarrow> 'r response promise) \<Rightarrow> string
     \<Rightarrow> string \<Rightarrow> string \<Rightarrow> 'r data outcome \<times> io list" where
  "updatePageContent e db pageName sectionName content =
     (if shouldUseDemoMode e then (Throws demo_mode_error, [])
      else
        let query = chain (from_q ''page_content'')
                  [upsert [(''page_name'', JStr pageName),
                           (''section_name'', JStr sectionName),
                           (''content'', JStr content),
                           (''content_type'', JStr ''text'')],
                   select ''*'',
                   single]
        in (settle (await (cms_withTimeout (db query) None))
              ''Failed to update page content: '' id,
            [Query query]))"

text \<open>
  \<^verbatim>\<open>createPageContent\<close>, lines 1013-1037.
\<close>

definition createPageContent ::
  "env \<Rightarrow> (query \<Rightarrow> 'r response promise) \<Rightarrow> obj
     \<Rightarrow> 'r data outcome \<times> io list" where
  "createPageContent e db pageContent =
     (if shouldUseDemoMode e then (Throws demo_mode_error, [])
      else
        let query = chain (from_q ''page_content'')
                  [insert_q pageContent,
                   select ''*'',
                   single]
        in (settle (await (cms_withTimeout (db query) None))
              ''Failed to create page content: '' id,
            [Query query]))"

section \<open>The session tracker (AuthContext.tsx)\<close>

text \<open>
  \<^verbatim>\<open>createDemoProfile\<close>, lines 35-48. \<open>now\<close> is the value of
  \<^verbatim>\<open>new Date().toISOString()\<close> when the profile is built.
\<close>

definition createDemoProfile :: "string \<Rightarrow> User \<Rightarrow> MemberProfile" where
  "createDemoProfile now user =
     \<lparr> profile_id = ''demo-profile-1'',
       user_id = u_id user,
       full_name = (if u_email user = Some ''demo@radlettlodge.org''
                    then ''Demo Admin'' else ''New Member''),
       position = (if u_email user = Some ''demo@radlettlodge.org''
                   then Some ''Worshipful Master'' else None),
       role = (if u_email user = Some ''demo@radlettlodge.org'' then ''admin'' else ''member''),
       join_date = ''2020-03-15'',
       created_at = ''2020-03-15T00:00:00Z'',
       updated_at = ''2024-01-01T00:00:00Z'',
       status = ''active'',
       email_verified = True,
       registration_date = ''2020-03-15T00:00:00Z'',
       last_login = Some now,
       needs_password_reset = None \<rparr>"

datatype AuthChangeEvent =
  INITIAL_SESSION | PASSWORD_RECOVERY | SIGNED_IN | SIGNED_OUT | TOKEN_REFRESHED
  | USER_UPDATED | MFA_CHALLENGE_VERIFIED

text \<open>
  The four \<^verbatim>\<open>useState\<close> cells of \<^verbatim>\<open>AuthProvider\<close>, lines 51-54. The fifth
  field is not a cell of the component: it is the history of the calls
  \<^verbatim>\<open>api.getMemberProfile(id)\<close> made so far (the ids, oldest first), kept so that
  "this transition performs no profile load" can be stated.
\<close>

record AuthState =
  user :: "User option"
  profile :: "MemberProfile option"
  loading :: bool
  error :: "string option"
  profile_requests :: "string list"

definition initialState :: AuthState where
  "initialState = \<lparr> user = None, profile = None, loading = True, error = None,
                     profile_requests = [] \<rparr>"

text \<open>
  \<^verbatim>\<open>loadProfile\<close>, lines 56-80. \<^verbatim>\<open>api\<close> is imported from
  \<^verbatim>\<open>../lib/optimizedApi\<close>, so the call \<^verbatim>\<open>api.getMemberProfile(id)\<close> is a
  parameter: what it does for each id (return a profile or null, throw, or never settle).
  The function returns how the \<^verbatim>\<open>async\<close> call ends and the cells it leaves. The
  inner \<^verbatim>\<open>catch\<close> only logs and falls through to the placeholder; nothing after it
  can throw, so the outer \<^verbatim>\<open>catch\<close> (which stores the same placeholder) is never
  entered.
\<close>

definition loadProfile ::
  "(string \<Rightarrow> MemberProfile option outcome) \<Rightarrow> string \<Rightarrow> User \<Rightarrow> AuthState
     \<Rightarrow> unit outcome \<times> AuthState" where
  "loadProfile api_getMemberProfile now currentUser st =
     (let st1 = st\<lparr> error := None,
                     profile_requests := profile_requests st @ [u_id currentUser] \<rparr>
      in case api_getMemberProfile (u_id currentUser) of
           Hangs \<Rightarrow> (Hangs, st1)
         | Returns (Some realProfile) \<Rightarrow> (Returns (), st1\<lparr> profile := Some realProfile \<rparr>)
         | Returns None \<Rightarrow>
             (Returns (), st1\<lparr> profile := Some (createDemoProfile now currentUser) \<rparr>)
         | Throws profileError \<Rightarrow>
             (Returns (), st1\<lparr> profile := Some (createDemoProfile now currentUser) \<rparr>))"

text \<open>\<^verbatim>\<open>refreshProfile\<close>, lines 82-86.\<close>

definition refreshProfile ::
  "(string \<Rightarrow> MemberProfile option outcome) \<Rightarrow> string \<Rightarrow> AuthState
     \<Rightarrow> unit outcome \<times> AuthState" where
  "refreshProfile api_getMemberProfile now st =
     (case user st of
        Some u \<Rightarrow> loadProfile api_getMemberProfile now u st
      | None \<Rightarrow> (Returns (), st))"

text \<open>
  \<^verbatim>\<open>getInitialSession\<close>, lines 92-111. The parameter \<open>getSession\<close> is what
  \<^verbatim>\<open>supabase.auth.getSession()\<close> does: return \<^verbatim>\<open>{data: {session}, error}\<close>, throw,
  or never settle. The guard variable \<^verbatim>\<open>mounted\<close> is read twice, after the session
  arrives and in the \<^verbatim>\<open>finally\<close> block; teardown may happen in between, so the two
  readings are two parameters.
\<close>

definition getInitialSession ::
  "bool \<Rightarrow> bool \<Rightarrow> (Session option \<times> js_error option) outcome
     \<Rightarrow> (string \<Rightarrow> MemberProfile option outcome) \<Rightarrow> string \<Rightarrow> AuthState
     \<Rightarrow> unit outcome \<times> AuthState" where
  "getInitialSession mounted mounted_finally getSession api_getMemberProfile now st =
     (let finally = (\<lambda>s. if mounted_finally then s\<lparr> loading := False \<rparr> else s)
      in case getSession of
           Hangs \<Rightarrow> (Hangs, st)
         | Throws err \<Rightarrow> (Returns (), finally (st\<lparr> error := Some ''Failed to authenticate'' \<rparr>))
         | Returns (session, err) \<Rightarrow>
             (case err of
                Some e \<Rightarrow> (Returns (), finally (st\<lparr> error := Some ''Authentication error'' \<rparr>))
              | None \<Rightarrow>
                  (case session_user_of session of
                     Some u \<Rightarrow>
                       if mounted
                       then (case loadProfile api_getMemberProfile now u (st\<lparr> user := Some u \<rparr>) of
                               (Returns x, s) \<Rightarrow> (Returns (), finally s)
                             | (Throws e, s) \<Rightarrow>
                                 (Returns (), finally (s\<lparr> error := Some ''Failed to authenticate'' \<rparr>))
                             | (Hangs, s) \<Rightarrow> (Hangs, s))
                       else (Returns (), finally st)
                   | None \<Rightarrow> (Returns (), finally st))))"

text \<open>
  The \<^verbatim>\<open>onAuthStateChange\<close> callback, lines 117-137. \<open>mounted\<close> is the guard
  variable of the effect when the callback is entered: after teardown the callback returns
  at once and applies nothing. Inside the \<^verbatim>\<open>try\<close> only \<^verbatim>\<open>loadProfile\<close> is
  awaited; should it throw, the \<^verbatim>\<open>catch\<close> stores \<^verbatim>\<open>'Authentication error'\<close>.
  (In the first branch the test has already excluded a missing user.)
\<close>

definition onAuthStateChange ::
  "bool \<Rightarrow> (string \<Rightarrow> MemberProfile option outcome) \<Rightarrow> string
     \<Rightarrow> AuthChangeEvent \<Rightarrow> Session option \<Rightarrow> AuthState \<Rightarrow> unit outcome \<times> AuthState" where
  "onAuthStateChange mounted api_getMemberProfile now event session st =
     (if \<not> mounted then (Returns (), st)
      else
        let st1 = st\<lparr> error := None \<rparr>
        in if event = SIGNED_IN \<and> session_user_of session \<noteq> None
           then (case session_user_of session of
                   None \<Rightarrow> (Returns (), st1)
                 | Some u \<Rightarrow>
                     (case loadProfile api_getMemberProfile now u (st1\<lparr> user := Some u \<rparr>) of
                        (Throws e, s) \<Rightarrow>
                          (Returns (), s\<lparr> error := Some ''Authentication error'' \<rparr>)
                      | r \<Rightarrow> r))
           else if event = SIGNED_OUT
           then (Returns (), st1\<lparr> user := None, profile := None \<rparr>)
           else if event = TOKEN_REFRESHED \<and> session_user_of session \<noteq> None
           then (Returns (), st1\<lparr> user := session_user_of session \<rparr>)
           else (Returns (), st1))"

text \<open>
  \<^verbatim>\<open>signOut\<close>, lines 145-157. \<open>provider\<close> is what
  \<^verbatim>\<open>supabase.auth.signOut()\<close> does: return \<^verbatim>\<open>{error}\<close> (null on success),
  throw, or never settle.
\<close>

definition signOut :: "js_error option outcome \<Rightarrow> AuthState \<Rightarrow> unit outcome \<times> AuthState" where
  "signOut provider st =
     (let st1 = st\<lparr> error := None \<rparr>
      in case provider of
           Hangs \<Rightarrow> (Hangs, st1)
         | Returns None \<Rightarrow> (Returns (), st1\<lparr> user := None, profile := None \<rparr>)
         | Returns (Some e) \<Rightarrow> (Throws e, st1\<lparr> error := Some ''Failed to sign out'' \<rparr>)
         | Throws e \<Rightarrow> (Throws e, st1\<lparr> error := Some ''Failed to sign out'' \<rparr>))"

text \<open>The derived values of lines 159 and 161.\<close>

definition isAdmin :: "AuthState \<Rightarrow> bool" where
  "isAdmin st = (case profile st of None \<Rightarrow> False | Some p \<Rightarrow> role p = ''admin'')"

definition needsPasswordReset :: "AuthState \<Rightarrow> bool" where
  "needsPasswordReset st =
     (case profile st of None \<Rightarrow> False | Some p \<Rightarrow> needs_password_reset p = Some True)"

section \<open>Sample inputs\<close>

definition member_user :: User where
  "member_user = \<lparr> u_id = ''u2'', u_email = Some ''brother@example.org'' \<rparr>"

definition member_session :: Session where
  "member_session = \<lparr> access_token = ''token-2'', session_user = Some member_user \<rparr>"

definition real_profile :: MemberProfile where
  "real_profile =
     \<lparr> profile_id = ''p-7'', user_id = ''u7'', full_name = ''A. Mason'', position = None,
       role = ''member'', join_date = ''2019-01-10'', created_at = ''2019-01-10T09:00:00Z'',
       updated_at = ''2023-05-02T09:00:00Z'', status = ''pending'', email_verified = False,
       registration_date = ''2019-01-10T09:00:00Z'', last_login = None,
       needs_password_reset = None \<rparr>"

definition signed_in_state :: AuthState where
  "signed_in_state =
     \<lparr> user = Some \<lparr> u_id = ''u7'', u_email = Some ''mason@example.org'' \<rparr>,
       profile = Some real_profile, loading = False, error = Some ''Authentication error'',
       profile_requests = [''u7''] \<rparr>"

definition fetch_fails :: "string \<Rightarrow> MemberProfile option outcome" where
  "fetch_fails userId = Throws (Error ''Demo mode - no database connection'')"

text \<open>
  Vocabulary for the statements about time: the promise has not settled when \<open>ms\<close>
  milliseconds have passed.
\<close>

definition misses_bound :: "nat \<Rightarrow> 'a promise \<Rightarrow> bool" where
  "misses_bound ms p = (case settles_at p of None \<Rightarrow> True | Some t \<Rightarrow> ms < t)"

definition demo_env :: env where
  "demo_env = \<lparr> VITE_SUPABASE_URL = None, VITE_SUPABASE_ANON_KEY = None \<rparr>"

definition live_env :: env where
  "live_env = \<lparr> VITE_SUPABASE_URL = Some ''https://lodge.example.co'',
                 VITE_SUPABASE_ANON_KEY = Some ''public-anon-key'' \<rparr>"

definition sample_clock :: "nat \<Rightarrow> instant" where
  "sample_clock k = \<lparr> epoch_ms = 1718000000123 + k, iso_string = ''2024-06-10T06:13:20.123Z'' \<rparr>"

text \<open>
  Four databases: one that answers every query with one stored row after 75 seconds, one
  that answers after 1.2 seconds, one whose every request fails in the network after 30
  milliseconds, and one that never answers.
\<close>

definition slow_db :: "query \<Rightarrow> MemberProfile response promise" where
  "slow_db q = Resolves 75000 \<lparr> resp_data = Rows [real_profile], resp_error = None \<rparr>"

definition quick_db :: "query \<Rightarrow> MemberProfile response promise" where
  "quick_db q = Resolves 1200 \<lparr> resp_data = Rows [real_profile], resp_error = None \<rparr>"

definition unreachable_db :: "query \<Rightarrow> MemberProfile response promise" where
  "unreachable_db q = Rejects 30 (Error ''TypeError: Failed to fetch'')"

definition silent_db :: "query \<Rightarrow> MemberProfile response promise" where
  "silent_db q = Pending"

definition silent_fetch :: "request \<Rightarrow> http_response outcome" where
  "silent_fetch r = Hangs"

section \<open>Properties of the session tracker\<close>

text \<open>
  Each transition below is one run of an \<^verbatim>\<open>async\<close> function taken as a whole: the
  cells are read when it starts and the result is what it leaves when it ends. Two runs
  that overlap in time (the initial session check and a sign-in event arriving during it)
  are outside these statements.
\<close>

lemma loadProfile_cases:
  "loadProfile g now u st =
     (case g (u_id u) of
        Hangs \<Rightarrow> (Hangs, st\<lparr> error := None, profile_requests := profile_requests st @ [u_id u] \<rparr>)
      | Returns r \<Rightarrow>
          (Returns (),
           st\<lparr> error := None, profile_requests := profile_requests st @ [u_id u],
               profile := Some (case r of Some p \<Rightarrow> p | None \<Rightarrow> createDemoProfile now u) \<rparr>)
      | Throws e \<Rightarrow>
          (Returns (),
           st\<lparr> error := None, profile_requests := profile_requests st @ [u_id u],
               profile := Some (createDemoProfile now u) \<rparr>))"
  by (simp add: loadProfile_def Let_def split: outcome.splits option.splits)

lemma loadProfile_never_throws: "fst (loadProfile g now u st) \<noteq> Throws e"
  by (simp add: loadProfile_cases split: outcome.splits)

lemma loadProfile_completed:
  "fst (loadProfile g now u st) = Returns x \<Longrightarrow>
     profile (snd (loadProfile g now u st)) \<noteq> None \<and> error (snd (loadProfile g now u st)) = None"
  by (simp add: loadProfile_cases split: outcome.splits)

text \<open>
  C1. When \<^verbatim>\<open>getMemberProfile\<close> throws or returns null for the identity,
  \<^verbatim>\<open>loadProfile\<close> completes and stores the placeholder built by
  \<^verbatim>\<open>createDemoProfile\<close>, and so does \<^verbatim>\<open>refreshProfile\<close> when that identity is
  the stored one. The placeholder's status is "active"; its role is "admin" exactly when the
  identity's email is "demo@radlettlodge.org" and "member" otherwise; for the demo address
  its position is "Worshipful Master".
\<close>

theorem placeholder_profile_when_no_real_profile:
  assumes "(\<exists>e. api_getMemberProfile (u_id u) = Throws e) \<or> api_getMemberProfile (u_id u) = Returns None"
  shows "fst (loadProfile api_getMemberProfile now u st) = Returns ()
       \<and> profile (snd (loadProfile api_getMemberProfile now u st)) = Some (createDemoProfile now u)
       \<and> (user st = Some u \<longrightarrow>
            fst (refreshProfile api_getMemberProfile now st) = Returns ()
          \<and> profile (snd (refreshProfile api_getMemberProfile now st)) = Some (createDemoProfile now u))
       \<and> status (createDemoProfile now u) = ''active''
       \<and> (role (createDemoProfile now u) = ''admin'') = (u_email u = Some ''demo@radlettlodge.org'')
       \<and> (u_email u \<noteq> Some ''demo@radlettlodge.org'' \<longrightarrow> role (createDemoProfile now u) = ''member'')
       \<and> (u_email u = Some ''demo@radlettlodge.org'' \<longrightarrow>
            position (createDemoProfile now u) = Some ''Worshipful Master'')"
proof -
  from assms have load:
    "loadProfile api_getMemberProfile now u st =
       (Returns (), st\<lparr> error := None, profile_requests := profile_requests st @ [u_id u],
                        profile := Some (createDemoProfile now u) \<rparr>)"
    by (auto simp: loadProfile_cases)
  have refresh: "user st = Some u \<Longrightarrow>
      refreshProfile api_getMemberProfile now st = loadProfile api_getMemberProfile now u st"
    by (simp add: refreshProfile_def)
  show ?thesis
    using load refresh by (simp add: createDemoProfile_def)
qed

text \<open>
  The end-to-end case of C1: identity \<^verbatim>\<open>{id: "u1", email: "demo@radlettlodge.org"}\<close>,
  no real profile, \<^verbatim>\<open>refreshProfile\<close>.
\<close>

theorem placeholder_profile_u1:
  "(\<lambda>_. Returns None) (u_id \<lparr> u_id = ''u1'', u_email = Some ''demo@radlettlodge.org'' \<rparr>)
      = (Returns None :: MemberProfile option outcome)
   \<and> (case profile (snd (refreshProfile (\<lambda>_. Returns None) ''2024-06-01T12:00:00.000Z''
                 (initialState\<lparr> user := Some \<lparr> u_id = ''u1'',
                                               u_email = Some ''demo@radlettlodge.org'' \<rparr> \<rparr>))) of
         None \<Rightarrow> False
       | Some p \<Rightarrow> role p = ''admin'' \<and> status p = ''active''
                   \<and> position p = Some ''Worshipful Master'')"
  using placeholder_profile_when_no_real_profile
          [of "\<lambda>_. Returns None" "\<lparr> u_id = ''u1'', u_email = Some ''demo@radlettlodge.org'' \<rparr>"
              "''2024-06-01T12:00:00.000Z''"
              "initialState\<lparr> user := Some \<lparr> u_id = ''u1'',
                                            u_email = Some ''demo@radlettlodge.org'' \<rparr> \<rparr>"]
  by (simp add: initialState_def)

text \<open>
  C6. \<^verbatim>\<open>loadProfile\<close> never throws and completes whenever the fetch settles; once it
  has completed, the stored profile is not null and the error cell is null, and when the
  fetch threw or returned null the stored profile is the placeholder. Hence after a
  signed-in event with a session user, and after an initial session check that found a
  session user (both on a mounted tracker), a completed run leaves the identity stored and
  the profile not null; the same holds for \<^verbatim>\<open>refreshProfile\<close> with a stored identity.
\<close>

theorem profile_not_null_after_load:
  "(\<forall>e. fst (loadProfile g now u st) \<noteq> Throws e)
   \<and> (g (u_id u) \<noteq> Hangs \<longrightarrow> fst (loadProfile g now u st) = Returns ())
   \<and> (fst (loadProfile g now u st) = Returns () \<longrightarrow>
        profile (snd (loadProfile g now u st)) \<noteq> None
      \<and> error (snd (loadProfile g now u st)) = None)
   \<and> ((\<exists>e. g (u_id u) = Throws e) \<or> g (u_id u) = Returns None \<longrightarrow>
        fst (loadProfile g now u st) = Returns ()
      \<and> profile (snd (loadProfile g now u st)) = Some (createDemoProfile now u)
      \<and> error (snd (loadProfile g now u st)) = None)
   \<and> (mounted \<and> session_user_of session = Some u
        \<and> fst (onAuthStateChange mounted g now SIGNED_IN session st) = Returns () \<longrightarrow>
        user (snd (onAuthStateChange mounted g now SIGNED_IN session st)) = Some u
      \<and> profile (snd (onAuthStateChange mounted g now SIGNED_IN session st)) \<noteq> None
      \<and> error (snd (onAuthStateChange mounted g now SIGNED_IN session st)) = None)
   \<and> (mounted \<and> session_user_of session = Some u
        \<and> fst (getInitialSession mounted mounted_finally (Returns (session, None)) g now st)
            = Returns () \<longrightarrow>
        user (snd (getInitialSession mounted mounted_finally (Returns (session, None)) g now st))
          = Some u
      \<and> profile (snd (getInitialSession mounted mounted_finally (Returns (session, None)) g now st))
          \<noteq> None
      \<and> error (snd (getInitialSession mounted mounted_finally (Returns (session, None)) g now st))
          = None)
   \<and> (user st = Some u \<and> fst (refreshProfile g now st) = Returns () \<longrightarrow>
        profile (snd (refreshProfile g now st)) \<noteq> None)"
proof -
  have handler: "mounted \<Longrightarrow> session_user_of session = Some u \<Longrightarrow>
      onAuthStateChange mounted g now SIGNED_IN session st
        = loadProfile g now u (st\<lparr> error := None, user := Some u \<rparr>)"
    by (simp add: onAuthStateChange_def Let_def loadProfile_cases split: outcome.splits)
  have initial: "mounted \<Longrightarrow> session_user_of session = Some u \<Longrightarrow>
      fst (getInitialSession mounted mounted_finally (Returns (session, None)) g now st) = Returns ()
      \<Longrightarrow> fst (loadProfile g now u (st\<lparr> user := Some u \<rparr>)) = Returns ()
        \<and> snd (getInitialSession mounted mounted_finally (Returns (session, None)) g now st)
            = (if mounted_finally
               then (snd (loadProfile g now u (st\<lparr> user := Some u \<rparr>)))\<lparr> loading := False \<rparr>
               else snd (loadProfile g now u (st\<lparr> user := Some u \<rparr>)))"
    by (simp add: getInitialSession_def Let_def loadProfile_cases split: outcome.splits)
  have c1: "\<forall>e. fst (loadProfile g now u st) \<noteq> Throws e"
    by (simp add: loadProfile_never_throws)
  have c2: "g (u_id u) \<noteq> Hangs \<longrightarrow> fst (loadProfile g now u st) = Returns ()"
    by (simp add: loadProfile_cases split: outcome.splits)
  have c3: "fst (loadProfile g now u st) = Returns () \<longrightarrow>
        profile (snd (loadProfile g now u st)) \<noteq> None
      \<and> error (snd (loadProfile g now u st)) = None"
    using loadProfile_completed by blast
  have c4: "(\<exists>e. g (u_id u) = Throws e) \<or> g (u_id u) = Returns None \<longrightarrow>
        fst (loadProfile g now u st) = Returns ()
      \<and> profile (snd (loadProfile g now u st)) = Some (createDemoProfile now u)
      \<and> error (snd (loadProfile g now u st)) = None"
    by (auto simp: loadProfile_cases)
  have c5: "mounted \<and> session_user_of session = Some u
        \<and> fst (onAuthStateChange mounted g now SIGNED_IN session st) = Returns () \<longrightarrow>
        user (snd (onAuthStateChange mounted g now SIGNED_IN session st)) = Some u
      \<and> profile (snd (onAuthStateChange mounted g now SIGNED_IN session st)) \<noteq> None
      \<and> error (snd (onAuthStateChange mounted g now SIGNED_IN session st)) = None"
  proof (intro impI, elim conjE)
    assume m: "mounted" and su: "session_user_of session = Some u"
      and fin: "fst (onAuthStateChange mounted g now SIGNED_IN session st) = Returns ()"
    note eq = handler [OF m su]
    from fin show "user (snd (onAuthStateChange mounted g now SIGNED_IN session st)) = Some u
      \<and> profile (snd (onAuthStateChange mounted g now SIGNED_IN session st)) \<noteq> None
      \<and> error (snd (onAuthStateChange mounted g now SIGNED_IN session st)) = None"
      unfolding eq by (simp add: loadProfile_cases split: outcome.splits)
  qed
  have c6: "mounted \<and> session_user_of session = Some u
        \<and> fst (getInitialSession mounted mounted_finally (Returns (session, None)) g now st)
            = Returns () \<longrightarrow>
        user (snd (getInitialSession mounted mounted_finally (Returns (session, None)) g now st))
          = Some u
      \<and> profile (snd (getInitialSession mounted mounted_finally (Returns (session, None)) g now st))
          \<noteq> None
      \<and> error (snd (getInitialSession mounted mounted_finally (Returns (session, None)) g now st))
          = None"
  proof (intro impI, elim conjE)
    assume m: "mounted" and su: "session_user_of session = Some u"
      and fin: "fst (getInitialSession mounted mounted_finally (Returns (session, None)) g now st)
                   = Returns ()"
    note eq = initial [OF m su fin]
    from eq show "user (snd (getInitialSession mounted mounted_finally (Returns (session, None)) g now st))
          = Some u
      \<and> profile (snd (getInitialSession mounted mounted_finally (Returns (session, None)) g now st))
          \<noteq> None
      \<and> error (snd (getInitialSession mounted mounted_finally (Returns (session, None)) g now st))
          = None"
      by (simp add: loadProfile_cases split: outcome.splits)
  qed
  have c7: "user st = Some u \<and> fst (refreshProfile g now st) = Returns () \<longrightarrow>
        profile (snd (refreshProfile g now st)) \<noteq> None"
    by (auto simp: refreshProfile_def loadProfile_cases split: outcome.splits)
  from c1 c2 c3 c4 c5 c6 c7 show ?thesis by blast
qed

theorem profile_not_null_after_load_witness:
  "fetch_fails (u_id member_user) \<noteq> Hangs
   \<and> (\<exists>e. fetch_fails (u_id member_user) = Throws e)
   \<and> session_user_of (Some member_session) = Some member_user
   \<and> user (initialState\<lparr> user := Some member_user \<rparr>) = Some member_user
   \<and> profile (initialState\<lparr> user := Some member_user \<rparr>) = None
   \<and> fst (loadProfile fetch_fails ''t0'' member_user (initialState\<lparr> user := Some member_user \<rparr>))
        = Returns ()
   \<and> profile (snd (loadProfile fetch_fails ''t0'' member_user
                      (initialState\<lparr> user := Some member_user \<rparr>)))
        = Some (createDemoProfile ''t0'' member_user)
   \<and> fst (onAuthStateChange True fetch_fails ''t0'' SIGNED_IN (Some member_session)
             (initialState\<lparr> user := Some member_user \<rparr>)) = Returns ()
   \<and> profile (snd (onAuthStateChange True fetch_fails ''t0'' SIGNED_IN (Some member_session)
                      (initialState\<lparr> user := Some member_user \<rparr>))) \<noteq> None
   \<and> fst (getInitialSession True True (Returns (Some member_session, None)) fetch_fails ''t0''
             (initialState\<lparr> user := Some member_user \<rparr>)) = Returns ()
   \<and> profile (snd (getInitialSession True True (Returns (Some member_session, None)) fetch_fails
                      ''t0'' (initialState\<lparr> user := Some member_user \<rparr>))) \<noteq> None
   \<and> fst (refreshProfile fetch_fails ''t0'' (initialState\<lparr> user := Some member_user \<rparr>))
        = Returns ()
   \<and> profile (snd (refreshProfile fetch_fails ''t0'' (initialState\<lparr> user := Some member_user \<rparr>)))
        \<noteq> None"
proof -
  have hyps: "fetch_fails (u_id member_user) \<noteq> Hangs"
    "\<exists>e. fetch_fails (u_id member_user) = Throws e"
    "session_user_of (Some member_session) = Some member_user"
    "user (initialState\<lparr> user := Some member_user \<rparr>) = Some member_user"
    "profile (initialState\<lparr> user := Some member_user \<rparr>) = None"
    by (simp_all add: fetch_fails_def session_user_of_def member_session_def initialState_def)
  have runs:
    "fst (onAuthStateChange True fetch_fails ''t0'' SIGNED_IN (Some member_session)
             (initialState\<lparr> user := Some member_user \<rparr>)) = Returns ()"
    "fst (getInitialSession True True (Returns (Some member_session, None)) fetch_fails ''t0''
             (initialState\<lparr> user := Some member_user \<rparr>)) = Returns ()"
    "fst (refreshProfile fetch_fails ''t0'' (initialState\<lparr> user := Some member_user \<rparr>))
        = Returns ()"
    by (simp_all add: onAuthStateChange_def getInitialSession_def refreshProfile_def
          loadProfile_def fetch_fails_def session_user_of_def member_session_def initialState_def)
  show ?thesis
    using hyps runs
      profile_not_null_after_load
        [of fetch_fails "''t0''" member_user "initialState\<lparr> user := Some member_user \<rparr>"
            True "Some member_session" True]
    by simp
qed

text \<open>
  C7. On a mounted tracker, whatever the cells hold and whatever session comes with the
  event, the callback run on \<^verbatim>\<open>SIGNED_OUT\<close> completes with the identity and the
  profile both null. (After teardown the guard at the top of the callback discards the
  event: nothing is processed.)
\<close>

theorem signed_out_clears_user_and_profile:
  assumes "mounted"
  shows "fst (onAuthStateChange mounted g now SIGNED_OUT session st) = Returns ()
       \<and> user (snd (onAuthStateChange mounted g now SIGNED_OUT session st)) = None
       \<and> profile (snd (onAuthStateChange mounted g now SIGNED_OUT session st)) = None"
  using assms by (simp add: onAuthStateChange_def Let_def)

theorem signed_out_clears_user_and_profile_witness:
  "user signed_in_state \<noteq> None \<and> profile signed_in_state \<noteq> None
   \<and> user (snd (onAuthStateChange True fetch_fails ''t0'' SIGNED_OUT None signed_in_state)) = None
   \<and> profile (snd (onAuthStateChange True fetch_fails ''t0'' SIGNED_OUT None signed_in_state)) = None"
  using signed_out_clears_user_and_profile [of True fetch_fails "''t0''" None signed_in_state]
  by (simp add: signed_in_state_def)

lemma callback_after_teardown: "onAuthStateChange False g now event session st = (Returns (), st)"
  by (simp add: onAuthStateChange_def)

text \<open>
  C8. On a mounted tracker, the callback run on \<^verbatim>\<open>TOKEN_REFRESHED\<close> with a session
  user stores that user, calls \<^verbatim>\<open>getMemberProfile\<close> not at all, and never writes the
  profile cell: the cell holds the value it held before (the same object, since no
  \<^verbatim>\<open>setProfile\<close> runs), and the result does not depend on what a fetch would have
  done.
\<close>

theorem token_refreshed_keeps_profile:
  assumes "mounted" and "session_user_of session = Some u"
  shows "onAuthStateChange mounted g now TOKEN_REFRESHED session st
           = (Returns (), st\<lparr> error := None, user := Some u \<rparr>)
       \<and> user (snd (onAuthStateChange mounted g now TOKEN_REFRESHED session st)) = Some u
       \<and> profile (snd (onAuthStateChange mounted g now TOKEN_REFRESHED session st)) = profile st
       \<and> profile_requests (snd (onAuthStateChange mounted g now TOKEN_REFRESHED session st))
           = profile_requests st
       \<and> onAuthStateChange mounted g' now' TOKEN_REFRESHED session st
           = onAuthStateChange mounted g now TOKEN_REFRESHED session st"
  using assms by (simp add: onAuthStateChange_def Let_def)

theorem token_refreshed_keeps_profile_witness:
  "session_user_of (Some member_session) = Some member_user
   \<and> user (snd (onAuthStateChange True fetch_fails ''t0'' TOKEN_REFRESHED (Some member_session)
                   signed_in_state)) = Some member_user
   \<and> profile (snd (onAuthStateChange True fetch_fails ''t0'' TOKEN_REFRESHED (Some member_session)
                      signed_in_state)) = Some real_profile
   \<and> profile_requests (snd (onAuthStateChange True fetch_fails ''t0'' TOKEN_REFRESHED
                               (Some member_session) signed_in_state)) = [''u7'']"
proof -
  have su: "session_user_of (Some member_session) = Some member_user"
    by (simp add: session_user_of_def member_session_def)
  show ?thesis
    using su token_refreshed_keeps_profile
                [OF TrueI su, of fetch_fails "''t0''" signed_in_state fetch_fails "''t0''"]
    by (simp add: signed_in_state_def)
qed

text \<open>
  C9. \<^verbatim>\<open>signOut\<close> ends as the provider's \<^verbatim>\<open>signOut\<close> call decides. When the
  provider returns no error, it returns with identity and profile null. When the provider
  returns an error object or throws, it throws that same error to the caller and leaves the
  last-error string set (to \<^verbatim>\<open>'Failed to sign out'\<close>).
\<close>

theorem signOut_delegates:
  "(provider = Returns None \<longrightarrow>
      fst (signOut provider st) = Returns ()
    \<and> user (snd (signOut provider st)) = None
    \<and> profile (snd (signOut provider st)) = None
    \<and> error (snd (signOut provider st)) = None)
   \<and> (provider = Returns (Some e) \<or> provider = Throws e \<longrightarrow>
      fst (signOut provider st) = Throws e
    \<and> error (snd (signOut provider st)) = Some ''Failed to sign out'')"
  by (auto simp: signOut_def Let_def)

theorem signOut_delegates_witness:
  "user signed_in_state \<noteq> None
   \<and> user (snd (signOut (Returns None) signed_in_state)) = None
   \<and> profile (snd (signOut (Returns None) signed_in_state)) = None
   \<and> fst (signOut (Returns (Some (Error ''network down''))) signed_in_state)
       = Throws (Error ''network down'')
   \<and> error (snd (signOut (Returns (Some (Error ''network down''))) signed_in_state))
       = Some ''Failed to sign out''"
  using signOut_delegates [of "Returns None" signed_in_state "Error ''network down''"]
    signOut_delegates [of "Returns (Some (Error ''network down''))" signed_in_state
                          "Error ''network down''"]
  by (simp add: signed_in_state_def)

text \<open>
  C10. When the provider's sign-out returns an error object or throws, \<^verbatim>\<open>signOut\<close>
  changes no cell but the error string: identity, profile and loading flag are the ones it
  started with.
\<close>

theorem signOut_failure_keeps_session:
  assumes "provider = Returns (Some e) \<or> provider = Throws e"
  shows "snd (signOut provider st) = st\<lparr> error := Some ''Failed to sign out'' \<rparr>
       \<and> user (snd (signOut provider st)) = user st
       \<and> profile (snd (signOut provider st)) = profile st
       \<and> loading (snd (signOut provider st)) = loading st"
  using assms by (auto simp: signOut_def Let_def)

theorem signOut_failure_keeps_session_witness:
  "user (snd (signOut (Throws (Error ''network down'')) signed_in_state)) = user signed_in_state
   \<and> profile (snd (signOut (Throws (Error ''network down'')) signed_in_state)) = Some real_profile
   \<and> user signed_in_state \<noteq> None"
  using signOut_failure_keeps_session
          [of "Throws (Error ''network down'')" "Error ''network down''" signed_in_state]
  by (simp add: signed_in_state_def)

section \<open>Properties of the data-access wrapper\<close>

lemmas api_defs =
  getMemberProfile_def createMemberProfile_def adminCreateMemberProfile_def getAllMembers_def
  updateMemberProfile_def deleteMemberProfile_def getLodgeDocuments_def createDocument_def
  getMeetingMinutes_def createMinutes_def

lemmas cms_defs =
  getEvents_def getNextUpcomingEvent_def createEvent_def updateEvent_def deleteEvent_def
  getNewsArticles_def createNewsArticle_def updateNewsArticle_def deleteNewsArticle_def
  getOfficers_def createOfficer_def updateOfficer_def deleteOfficer_def
  getTestimonials_def createTestimonial_def updateTestimonial_def deleteTestimonial_def
  getFAQItems_def createFAQItem_def updateFAQItem_def deleteFAQItem_def
  getSiteSettings_def updateSiteSetting_def getPageContent_def updatePageContent_def
  createPageContent_def

lemma string_of_nat_60000: "string_of_nat 60000 = ''60000''"
  by (simp add: string_of_nat.simps digit_char_def)

lemma string_of_nat_90000: "string_of_nat 90000 = ''90000''"
  by (simp add: string_of_nat.simps digit_char_def)

lemma timeout_error_60000: "timeout_error 60000 = Error ''Request timeout after 60000ms''"
  by (simp add: timeout_error_def string_of_nat_60000)

lemma timeout_error_90000: "timeout_error 90000 = Error ''Request timeout after 90000ms''"
  by (simp add: timeout_error_def string_of_nat_90000)

lemma race_timer_late:
  "misses_bound ms p \<Longrightarrow> race p (Rejects ms err) = Rejects ms err"
  by (cases p) (simp_all add: race_def misses_bound_def)

lemma race_timer_early:
  "settles_at p = Some t \<Longrightarrow> t \<le> ms \<Longrightarrow> race p (Rejects ms err) = p"
  by (simp add: race_def)

lemma race_timer_settles: "race p (Rejects ms err) \<noteq> Pending"
  by (cases p) (simp_all add: race_def)

lemma withTimeout_late:
  "misses_bound ms p \<Longrightarrow> withTimeout p (Some ms) = Rejects ms (timeout_error ms)"
  by (simp add: withTimeout_def race_timer_late)

lemma cms_withTimeout_late:
  "misses_bound ms p \<Longrightarrow> cms_withTimeout p (Some ms) = Rejects ms (timeout_error ms)"
  "misses_bound 60000 p \<Longrightarrow> cms_withTimeout p None = Rejects 60000 (timeout_error 60000)"
  by (simp_all add: cms_withTimeout_def race_timer_late)

lemma withTimeout_in_time:
  "\<exists>t < ms. settles_at p = Some t \<Longrightarrow> withTimeout p (Some ms) = p"
  by (auto simp: withTimeout_def race_timer_early)

lemma cms_withTimeout_in_time:
  "\<exists>t < 60000. settles_at p = Some t \<Longrightarrow> cms_withTimeout p None = p"
  by (auto simp: cms_withTimeout_def race_timer_early)

lemma settle_Throws: "settle (Throws err) failure ret = Throws err"
  by (simp add: settle_def)

text \<open>
  With either timer in front of it, an awaited query always ends: the operations that
  wrap their query cannot hang.
\<close>

lemma settle_withTimeout_ends:
  "settle (await (withTimeout p ms)) failure ret \<noteq> Hangs"
  "settle (await (cms_withTimeout p ms)) failure ret \<noteq> Hangs"
proof -
  have a: "withTimeout p ms \<noteq> Pending"
    by (simp add: withTimeout_def Let_def race_timer_settles)
  have b: "cms_withTimeout p ms \<noteq> Pending"
    by (simp add: cms_withTimeout_def Let_def race_timer_settles)
  have a': "await (withTimeout p ms) \<noteq> Hangs"
    using a by (cases "withTimeout p ms") simp_all
  have b': "await (cms_withTimeout p ms) \<noteq> Hangs"
    using b by (cases "cms_withTimeout p ms") simp_all
  show "settle (await (withTimeout p ms)) failure ret \<noteq> Hangs"
    using a' by (simp add: settle_def split: outcome.splits option.splits)
  show "settle (await (cms_withTimeout p ms)) failure ret \<noteq> Hangs"
    using b' by (simp add: settle_def split: outcome.splits option.splits)
qed

text \<open>
  Hence every operation that awaits a database query ends, whatever the database does:
  it returns or throws.
\<close>

lemma wrapped_operations_end:
  "fst (getMemberProfile e pdb userId) \<noteq> Hangs
   \<and> fst (createMemberProfile e pdb clock userId fullName) \<noteq> Hangs
   \<and> fst (adminCreateMemberProfile e pdb newProfile) \<noteq> Hangs
   \<and> fst (getAllMembers e pdb) \<noteq> Hangs
   \<and> fst (updateMemberProfile e pdb userId changes) \<noteq> Hangs
   \<and> fst (deleteMemberProfile e pdb userId) \<noteq> Hangs
   \<and> fst (getLodgeDocuments e db category) \<noteq> Hangs
   \<and> fst (createDocument e db document) \<noteq> Hangs
   \<and> fst (getMeetingMinutes e db) \<noteq> Hangs
   \<and> fst (createMinutes e db minutes) \<noteq> Hangs \<and> fst (getEvents e db) \<noteq> Hangs
   \<and> fst (getNextUpcomingEvent e db clock) \<noteq> Hangs
   \<and> fst (createEvent e db event) \<noteq> Hangs
   \<and> fst (updateEvent e db ident event) \<noteq> Hangs
   \<and> fst (deleteEvent e db ident) \<noteq> Hangs
   \<and> fst (getNewsArticles e db) \<noteq> Hangs
   \<and> fst (createNewsArticle e db clock article) \<noteq> Hangs
   \<and> fst (updateNewsArticle e db ident article) \<noteq> Hangs
   \<and> fst (deleteNewsArticle e db ident) \<noteq> Hangs
   \<and> fst (getOfficers e db) \<noteq> Hangs
   \<and> fst (createOfficer e db officer) \<noteq> Hangs
   \<and> fst (updateOfficer e db ident officer) \<noteq> Hangs
   \<and> fst (deleteOfficer e db ident) \<noteq> Hangs
   \<and> fst (getTestimonials e db) \<noteq> Hangs
   \<and> fst (createTestimonial e db testimonial) \<noteq> Hangs
   \<and> fst (updateTestimonial e db ident testimonial) \<noteq> Hangs
   \<and> fst (deleteTestimonial e db ident) \<noteq> Hangs
   \<and> fst (getFAQItems e db) \<noteq> Hangs \<and> fst (createFAQItem e db faq) \<noteq> Hangs
   \<and> fst (updateFAQItem e db ident faq) \<noteq> Hangs
   \<and> fst (deleteFAQItem e db ident) \<noteq> Hangs
   \<and> fst (getSiteSettings e db) \<noteq> Hangs
   \<and> fst (updateSiteSetting e db key val) \<noteq> Hangs
   \<and> fst (getPageContent e db pageFilter) \<noteq> Hangs
   \<and> fst (updatePageContent e db pageName sectionName content) \<noteq> Hangs
   \<and> fst (createPageContent e db pageContent) \<noteq> Hangs"
  by (simp add: api_defs cms_defs Let_def settle_withTimeout_ends)

text \<open>
  Six operations of \<^verbatim>\<open>api\<close> never read the configuration's demo-mode predicate:
  the five below give the same result under any two configurations, and
  \<^verbatim>\<open>deleteUserAndProfile\<close> reads the URL only to build the address it posts to.
\<close>

lemma unguarded_operations_ignore_configuration:
  "adminCreateMemberProfile e pdb newProfile = adminCreateMemberProfile e' pdb newProfile"
  "updateMemberProfile e pdb userId changes = updateMemberProfile e' pdb userId changes"
  "deleteMemberProfile e pdb userId = deleteMemberProfile e' pdb userId"
  "createDocument e db document = createDocument e' db document"
  "createMinutes e db minutes = createMinutes e' db minutes"
  by (simp_all add: api_defs)

text \<open>
  C2 as stated fails. With both connection parameters missing,
  \<^verbatim>\<open>createMemberProfile\<close> returns a locally built profile instead of failing, and
  \<^verbatim>\<open>adminCreateMemberProfile\<close>, \<^verbatim>\<open>updateMemberProfile\<close> and
  \<^verbatim>\<open>deleteMemberProfile\<close> do not test the predicate: they hand their query to the
  database client and end as that request ends (here: the network error).
\<close>

theorem demo_mode_not_every_operation:
  "shouldUseDemoMode demo_env
   \<and> fst (createMemberProfile demo_env unreachable_db sample_clock ''u9'' ''New Brother'')
       \<noteq> Throws demo_mode_error
   \<and> fst (adminCreateMemberProfile demo_env unreachable_db [(''user_id'', JStr ''u9'')])
       = Throws (Error ''TypeError: Failed to fetch'')
   \<and> snd (adminCreateMemberProfile demo_env unreachable_db [(''user_id'', JStr ''u9'')]) \<noteq> []
   \<and> fst (updateMemberProfile demo_env unreachable_db ''u9'' [(''status'', JStr ''active'')])
       = Throws (Error ''TypeError: Failed to fetch'')
   \<and> snd (updateMemberProfile demo_env unreachable_db ''u9'' [(''status'', JStr ''active'')]) \<noteq> []
   \<and> fst (deleteMemberProfile demo_env unreachable_db ''u9'')
       = Throws (Error ''TypeError: Failed to fetch'')
   \<and> snd (deleteMemberProfile demo_env unreachable_db ''u9'') \<noteq> []"
  by (simp add: shouldUseDemoMode_def falsy_def demo_env_def createMemberProfile_def
        adminCreateMemberProfile_def updateMemberProfile_def deleteMemberProfile_def Let_def
        unreachable_db_def withTimeout_def race_def settle_def)

text \<open>
  C2, amended. When the demo-mode predicate is true, each operation that tests it --- every
  operation of \<^verbatim>\<open>cmsApi\<close>, and \<^verbatim>\<open>getMemberProfile\<close>, \<^verbatim>\<open>getAllMembers\<close>,
  \<^verbatim>\<open>getLodgeDocuments\<close> and \<^verbatim>\<open>getMeetingMinutes\<close> of \<^verbatim>\<open>api\<close> --- throws
  the error with message "Demo mode - no database connection" and sends nothing;
  \<^verbatim>\<open>createMemberProfile\<close> sends nothing either and returns a locally built profile
  with status "pending".
\<close>

theorem demo_mode_guarded_operations:
  assumes "shouldUseDemoMode e"
  shows "getMemberProfile e pdb userId = (Throws (Error ''Demo mode - no database connection''), [])
       \<and> getAllMembers e pdb = (Throws (Error ''Demo mode - no database connection''), [])
       \<and> getLodgeDocuments e db category
           = (Throws (Error ''Demo mode - no database connection''), [])
       \<and> getMeetingMinutes e db = (Throws (Error ''Demo mode - no database connection''), [])
       \<and> getEvents e db = (Throws (Error ''Demo mode - no database connection''), [])
       \<and> getNextUpcomingEvent e db clock
           = (Throws (Error ''Demo mode - no database connection''), [])
       \<and> createEvent e db event = (Throws (Error ''Demo mode - no database connection''), [])
       \<and> updateEvent e db ident event = (Throws (Error ''Demo mode - no database connection''), [])
       \<and> deleteEvent e db ident = (Throws (Error ''Demo mode - no database connection''), [])
       \<and> getNewsArticles e db = (Throws (Error ''Demo mode - no database connection''), [])
       \<and> createNewsArticle e db clock article
           = (Throws (Error ''Demo mode - no database connection''), [])
       \<and> updateNewsArticle e db ident article
           = (Throws (Error ''Demo mode - no database connection''), [])
       \<and> deleteNewsArticle e db ident = (Throws (Error ''Demo mode - no database connection''), [])
       \<and> getOfficers e db = (Throws (Error ''Demo mode - no database connection''), [])
       \<and> createOfficer e db officer = (Throws (Error ''Demo mode - no database connection''), [])
       \<and> updateOfficer e db ident officer
           = (Throws (Error ''Demo mode - no database connection''), [])
       \<and> deleteOfficer e db ident = (Throws (Error ''Demo mode - no database connection''), [])
       \<and> getTestimonials e db = (Throws (Error ''Demo mode - no database connection''), [])
       \<and> createTestimonial e db testimonial
           = (Throws (Error ''Demo mode - no database connection''), [])
       \<and> updateTestimonial e db ident testimonial
           = (Throws (Error ''Demo mode - no database connection''), [])
       \<and> deleteTestimonial e db ident = (Throws (Error ''Demo mode - no database connection''), [])
       \<and> getFAQItems e db = (Throws (Error ''Demo mode - no database connection''), [])
       \<and> createFAQItem e db faq = (Throws (Error ''Demo mode - no database connection''), [])
       \<and> updateFAQItem e db ident faq = (Throws (Error ''Demo mode - no database connection''), [])
       \<and> deleteFAQItem e db ident = (Throws (Error ''Demo mode - no database connection''), [])
       \<and> getSiteSettings e db = (Throws (Error ''Demo mode - no database connection''), [])
       \<and> updateSiteSetting e db key val
           = (Throws (Error ''Demo mode - no database connection''), [])
       \<and> getPageContent e db pageFilter = (Throws (Error ''Demo mode - no database connection''), [])
       \<and> updatePageContent e db pageName sectionName content
           = (Throws (Error ''Demo mode - no database connection''), [])
       \<and> createPageContent e db pageContent
           = (Throws (Error ''Demo mode - no database connection''), [])
       \<and> snd (createMemberProfile e pdb clock userId fullName) = []
       \<and> (case fst (createMemberProfile e pdb clock userId fullName) of
             Returns (Row p) \<Rightarrow> status p = ''pending'' \<and> user_id p = userId
           | _ \<Rightarrow> False)"
  using assms by (simp add: api_defs cms_defs demo_mode_error_def)

theorem demo_mode_guarded_operations_witness:
  "shouldUseDemoMode demo_env
   \<and> getAllMembers demo_env quick_db = (Throws (Error ''Demo mode - no database connection''), [])
   \<and> updateEvent demo_env quick_db ''ev-1'' [(''title'', JStr ''Installation'')]
       = (Throws (Error ''Demo mode - no database connection''), [])
   \<and> snd (createMemberProfile demo_env quick_db sample_clock ''u9'' ''New Brother'') = []"
proof -
  have demo: "shouldUseDemoMode demo_env"
    by (simp add: shouldUseDemoMode_def falsy_def demo_env_def)
  show ?thesis
    using demo
      demo_mode_guarded_operations
        [OF demo, where pdb = quick_db and db = quick_db and clock = sample_clock
           and ident = "''ev-1''" and event = "[(''title'', JStr ''Installation'')]"
           and userId = "''u9''" and fullName = "''New Brother''"]
    by simp
qed

text \<open>
  C3. When the URL or the public key is missing from the configuration, each read
  operation --- \<^verbatim>\<open>getMemberProfile\<close>, \<^verbatim>\<open>getAllMembers\<close>,
  \<^verbatim>\<open>getLodgeDocuments\<close>, \<^verbatim>\<open>getMeetingMinutes\<close> and the eight read operations of
  \<^verbatim>\<open>cmsApi\<close> --- throws the "Demo mode - no database connection" error and sends
  nothing, while \<^verbatim>\<open>createMemberProfile\<close> sends nothing and returns the profile it
  builds from its arguments and the clock, with role "member" and status "pending".
\<close>

theorem demo_mode_reads_fail_create_synthesizes:
  assumes "VITE_SUPABASE_URL e = None \<or> VITE_SUPABASE_ANON_KEY e = None"
  shows "shouldUseDemoMode e
       \<and> getMemberProfile e pdb userId
           = (Throws (Error ''Demo mode - no database connection''), [])
       \<and> getAllMembers e pdb = (Throws (Error ''Demo mode - no database connection''), [])
       \<and> getLodgeDocuments e db category
           = (Throws (Error ''Demo mode - no database connection''), [])
       \<and> getMeetingMinutes e db = (Throws (Error ''Demo mode - no database connection''), [])
       \<and> getEvents e db = (Throws (Error ''Demo mode - no database connection''), [])
       \<and> getNextUpcomingEvent e db clock
           = (Throws (Error ''Demo mode - no database connection''), [])
       \<and> getNewsArticles e db = (Throws (Error ''Demo mode - no database connection''), [])
       \<and> getOfficers e db = (Throws (Error ''Demo mode - no database connection''), [])
       \<and> getTestimonials e db = (Throws (Error ''Demo mode - no database connection''), [])
       \<and> getFAQItems e db = (Throws (Error ''Demo mode - no database connection''), [])
       \<and> getSiteSettings e db = (Throws (Error ''Demo mode - no database connection''), [])
       \<and> getPageContent e db pageFilter
           = (Throws (Error ''Demo mode - no database connection''), [])
       \<and> createMemberProfile e pdb clock userId fullName
           = (Returns (Row \<lparr> profile_id = ''demo-'' @ string_of_nat (epoch_ms (clock 0)),
                              user_id = userId, full_name = fullName, position = None,
                              role = ''member'', join_date = before_T (iso_string (clock 1)),
                              created_at = iso_string (clock 2),
                              updated_at = iso_string (clock 3), status = ''pending'',
                              email_verified = False,
                              registration_date = iso_string (clock 4), last_login = None,
                              needs_password_reset = None \<rparr>), [])
       \<and> (case fst (createMemberProfile e pdb clock userId fullName) of
             Returns (Row p) \<Rightarrow> status p = ''pending''
           | _ \<Rightarrow> False)"
proof -
  from assms have demo: "shouldUseDemoMode e"
    by (auto simp: shouldUseDemoMode_def falsy_def)
  then show ?thesis
    by (simp add: api_defs cms_defs demo_mode_error_def)
qed

theorem demo_mode_reads_fail_create_synthesizes_witness:
  "(VITE_SUPABASE_URL demo_env = None \<or> VITE_SUPABASE_ANON_KEY demo_env = None)
   \<and> getMemberProfile demo_env quick_db ''u9''
       = (Throws (Error ''Demo mode - no database connection''), [])
   \<and> getPageContent demo_env quick_db (Some ''home'')
       = (Throws (Error ''Demo mode - no database connection''), [])
   \<and> (case fst (createMemberProfile demo_env quick_db sample_clock ''u9'' ''New Brother'') of
         Returns (Row p) \<Rightarrow> status p = ''pending'' \<and> profile_id p = ''demo-1718000000123''
                            \<and> join_date p = ''2024-06-10''
       | _ \<Rightarrow> False)"
proof -
  have absent: "VITE_SUPABASE_URL demo_env = None \<or> VITE_SUPABASE_ANON_KEY demo_env = None"
    by (simp add: demo_env_def)
  have id: "string_of_nat 1718000000123 = ''1718000000123''"
    by (simp add: string_of_nat.simps digit_char_def)
  show ?thesis
    using absent
      demo_mode_reads_fail_create_synthesizes
        [OF absent, where pdb = quick_db and db = quick_db and clock = sample_clock
           and userId = "''u9''" and fullName = "''New Brother''"
           and pageFilter = "Some ''home''"]
    by (simp add: sample_clock_def id before_T_def)
qed

text \<open>
  C4 as stated fails: the listing operations \<^verbatim>\<open>getMeetingMinutes\<close>,
  \<^verbatim>\<open>getEvents\<close> and \<^verbatim>\<open>getNewsArticles\<close> are bounded by 60 seconds, not 90. A
  database that answers after 75 seconds is too late for them, and in time for
  \<^verbatim>\<open>getAllMembers\<close>.
\<close>

theorem listing_operations_bounded_by_60s:
  "fst (getMeetingMinutes live_env slow_db) = Throws (Error ''Request timeout after 60000ms'')
   \<and> fst (getEvents live_env slow_db) = Throws (Error ''Request timeout after 60000ms'')
   \<and> fst (getNewsArticles live_env slow_db) = Throws (Error ''Request timeout after 60000ms'')
   \<and> fst (getAllMembers live_env slow_db) = Returns (Rows [real_profile])"
  by (simp add: getMeetingMinutes_def getEvents_def getNewsArticles_def getAllMembers_def
        shouldUseDemoMode_def falsy_def live_env_def slow_db_def Let_def withTimeout_def
        cms_withTimeout_def race_def settle_def timeout_error_60000)

text \<open>
  C4, amended. Outside demo mode every operation that awaits a database query bounds it by
  60 seconds, whether it reads or writes one entity or lists a whole collection; the one
  exception is \<^verbatim>\<open>getAllMembers\<close>, bounded by 90 seconds. For each operation, on the
  query it builds: if that query has not settled when the bound has passed, the operation
  throws "Request timeout after 60000ms" (for \<^verbatim>\<open>getAllMembers\<close>: "Request timeout
  after 90000ms"); if that query settles before the bound, the operation ends with the
  query's own outcome (its rows, its rejection, or its error under the operation's
  prefix). \<^verbatim>\<open>deleteUserAndProfile\<close> has no bound: it hangs when its HTTP request
  never settles.
\<close>

theorem timeout_bounds:
  assumes "\<not> shouldUseDemoMode e"
  shows "(let query =
                  chain (from_q ''member_profiles'') [select ''*'', eq ''user_id'' (JStr userId), limit 1]
          in (misses_bound 60000 (pdb query) \<longrightarrow>
                fst (getMemberProfile e pdb userId) = Throws (Error ''Request timeout after 60000ms''))
           \<and> ((\<exists>t < 60000. settles_at (pdb query) = Some t) \<longrightarrow>
                fst (getMemberProfile e pdb userId)
                  = settle (await (pdb query)) ''Failed to fetch profile: '' first_row))
       \<and> (let query =
                  chain (from_q ''member_profiles'')
                   [insert_q [(''user_id'', JStr userId),
                              (''full_name'', JStr (trim fullName)),
                              (''role'', JStr ''member''),
                              (''status'', JStr ''pending''),
                              (''registration_date'', JStr (iso_string (clock 0))),
                              (''email_verified'', JBool False)],
                    select ''*'', single]
          in (misses_bound 60000 (pdb query) \<longrightarrow>
                fst (createMemberProfile e pdb clock userId fullName) = Throws (Error ''Request timeout after 60000ms''))
           \<and> ((\<exists>t < 60000. settles_at (pdb query) = Some t) \<longrightarrow>
                fst (createMemberProfile e pdb clock userId fullName)
                  = settle (await (pdb query)) ''Failed to create profile: '' id))
       \<and> (let query =
                  chain (from_q ''member_profiles'') [insert_q newProfile, select ''*'', single]
          in (misses_bound 60000 (pdb query) \<longrightarrow>
                fst (adminCreateMemberProfile e pdb newProfile) = Throws (Error ''Request timeout after 60000ms''))
           \<and> ((\<exists>t < 60000. settles_at (pdb query) = Some t) \<longrightarrow>
                fst (adminCreateMemberProfile e pdb newProfile)
                  = settle (await (pdb query)) ''Failed to create profile: '' id))
       \<and> (let query =
                  chain (from_q ''member_profiles'') [select ''*'', order_q ''full_name'' True]
          in (misses_bound 90000 (pdb query) \<longrightarrow>
                fst (getAllMembers e pdb) = Throws (Error ''Request timeout after 90000ms''))
           \<and> ((\<exists>t < 90000. settles_at (pdb query) = Some t) \<longrightarrow>
                fst (getAllMembers e pdb)
                  = settle (await (pdb query)) ''Failed to fetch members: '' id))
       \<and> (let query =
                  chain (from_q ''member_profiles'') [update changes, eq ''user_id'' (JStr userId), select ''*'', single]
          in (misses_bound 60000 (pdb query) \<longrightarrow>
                fst (updateMemberProfile e pdb userId changes) = Throws (Error ''Request timeout after 60000ms''))
           \<and> ((\<exists>t < 60000. settles_at (pdb query) = Some t) \<longrightarrow>
                fst (updateMemberProfile e pdb userId changes)
                  = settle (await (pdb query)) ''Failed to update profile: '' id))
       \<and> (let query =
                  chain (from_q ''member_profiles'') [delete, eq ''user_id'' (JStr userId)]
          in (misses_bound 60000 (pdb query) \<longrightarrow>
                fst (deleteMemberProfile e pdb userId) = Throws (Error ''Request timeout after 60000ms''))
           \<and> ((\<exists>t < 60000. settles_at (pdb query) = Some t) \<longrightarrow>
                fst (deleteMemberProfile e pdb userId)
                  = settle (await (pdb query)) ''Failed to delete profile: '' no_value))
       \<and> (let query =
                  (case category of
                    None \<Rightarrow> chain (from_q ''lodge_documents'') [select ''*'', order_q ''created_at'' False]
                 | Some c \<Rightarrow>
                      if c \<noteq> []
                      then eq ''category'' (JStr c)
                             (chain (from_q ''lodge_documents'')
                                [select ''*'', order_q ''created_at'' False])
                      else chain (from_q ''lodge_documents'')
                             [select ''*'', order_q ''created_at'' False])
          in (misses_bound 60000 (db query) \<longrightarrow>
                fst (getLodgeDocuments e db category) = Throws (Error ''Request timeout after 60000ms''))
           \<and> ((\<exists>t < 60000. settles_at (db query) = Some t) \<longrightarrow>
                fst (getLodgeDocuments e db category)
                  = settle (await (db query)) ''Failed to fetch documents: '' id))
       \<and> (let query =
                  chain (from_q ''lodge_documents'') [insert_q document, select ''*'', single]
          in (misses_bound 60000 (db query) \<longrightarrow>
                fst (createDocument e db document) = Throws (Error ''Request timeout after 60000ms''))
           \<and> ((\<exists>t < 60000. settles_at (db query) = Some t) \<longrightarrow>
                fst (createDocument e db document)
                  = settle (await (db query)) ''Failed to create document: '' id))
       \<and> (let query =
                  chain (from_q ''meeting_minutes'') [select ''*'', order_q ''meeting_date'' False]
          in (misses_bound 60000 (db query) \<longrightarrow>
                fst (getMeetingMinutes e db) = Throws (Error ''Request timeout after 60000ms''))
           \<and> ((\<exists>t < 60000. settles_at (db query) = Some t) \<longrightarrow>
                fst (getMeetingMinutes e db)
                  = settle (await (db query)) ''Failed to fetch meeting minutes: '' id))
       \<and> (let query =
                  chain (from_q ''meeting_minutes'') [insert_q minutes, select ''*'', single]
          in (misses_bound 60000 (db query) \<longrightarrow>
                fst (createMinutes e db minutes) = Throws (Error ''Request timeout after 60000ms''))
           \<and> ((\<exists>t < 60000. settles_at (db query) = Some t) \<longrightarrow>
                fst (createMinutes e db minutes)
                  = settle (await (db query)) ''Failed to create meeting minutes: '' id))
       \<and> (let query = chain (from_q ''events'') [select ''*'', order_q ''event_date'' True]
          in (misses_bound 60000 (db query) \<longrightarrow>
                fst (getEvents e db) = Throws (Error ''Request timeout after 60000ms''))
           \<and> ((\<exists>t < 60000. settles_at (db query) = Some t) \<longrightarrow>
                fst (getEvents e db)
                  = settle (await (db query)) ''Failed to fetch events: '' id))
       \<and> (let query =
                  chain (from_q ''events'')
                   [select ''*'', eq ''is_past_event'' (JBool False),
                    gte ''event_date'' (JStr (iso_string (clock 0))),
                    order_q ''event_date'' True, limit 1]
          in (misses_bound 60000 (db query) \<longrightarrow>
                fst (getNextUpcomingEvent e db clock) = Throws (Error ''Request timeout after 60000ms''))
           \<and> ((\<exists>t < 60000. settles_at (db query) = Some t) \<longrightarrow>
                fst (getNextUpcomingEvent e db clock)
                  = settle (await (db query)) ''Failed to fetch next upcoming event: '' first_row))
       \<and> (let query = chain (from_q ''events'') [insert_q event, select ''*'', single]
          in (misses_bound 60000 (db query) \<longrightarrow>
                fst (createEvent e db event) = Throws (Error ''Request timeout after 60000ms''))
           \<and> ((\<exists>t < 60000. settles_at (db query) = Some t) \<longrightarrow>
                fst (createEvent e db event)
                  = settle (await (db query)) ''Failed to create event: '' id))
       \<and> (let query =
                  chain (from_q ''events'') [update event, eq ''id'' (JStr ident), select ''*'', single]
          in (misses_bound 60000 (db query) \<longrightarrow>
                fst (updateEvent e db ident event) = Throws (Error ''Request timeout after 60000ms''))
           \<and> ((\<exists>t < 60000. settles_at (db query) = Some t) \<longrightarrow>
                fst (updateEvent e db ident event)
                  = settle (await (db query)) ''Failed to update event: '' id))
       \<and> (let query = chain (from_q ''events'') [delete, eq ''id'' (JStr ident)]
          in (misses_bound 60000 (db query) \<longrightarrow>
                fst (deleteEvent e db ident) = Throws (Error ''Request timeout after 60000ms''))
           \<and> ((\<exists>t < 60000. settles_at (db query) = Some t) \<longrightarrow>
                fst (deleteEvent e db ident)
                  = settle (await (db query)) ''Failed to delete event: '' no_value))
       \<and> (let query =
                  chain (from_q ''news_articles'') [select ''*'', order_q ''publish_date'' False]
          in (misses_bound 60000 (db query) \<longrightarrow>
                fst (getNewsArticles e db) = Throws (Error ''Request timeout after 60000ms''))
           \<and> ((\<exists>t < 60000. settles_at (db query) = Some t) \<longrightarrow>
                fst (getNewsArticles e db)
                  = settle (await (db query)) ''Failed to fetch news articles: '' id))
       \<and> (let query =
                  chain (from_q ''news_articles'')
                   [insert_q
                      (spread_with ''publish_date''
                         (case map_of article ''publish_date'' of
                            Some v \<Rightarrow> if truthy v then v
                                      else JStr (before_T (iso_string (clock 0)))
                          | None \<Rightarrow> JStr (before_T (iso_string (clock 0))))
                         article),
                    select ''*'', single]
          in (misses_bound 60000 (db query) \<longrightarrow>
                fst (createNewsArticle e db clock article) = Throws (Error ''Request timeout after 60000ms''))
           \<and> ((\<exists>t < 60000. settles_at (db query) = Some t) \<longrightarrow>
                fst (createNewsArticle e db clock article)
                  = settle (await (db query)) ''Failed to create news article: '' id))
       \<and> (let query =
                  chain (from_q ''news_articles'') [update article, eq ''id'' (JStr ident), select ''*'', single]
          in (misses_bound 60000 (db query) \<longrightarrow>
                fst (updateNewsArticle e db ident article) = Throws (Error ''Request timeout after 60000ms''))
           \<and> ((\<exists>t < 60000. settles_at (db query) = Some t) \<longrightarrow>
                fst (updateNewsArticle e db ident article)
                  = settle (await (db query)) ''Failed to update news article: '' id))
       \<and> (let query = chain (from_q ''news_articles'') [delete, eq ''id'' (JStr ident)]
          in (misses_bound 60000 (db query) \<longrightarrow>
                fst (deleteNewsArticle e db ident) = Throws (Error ''Request timeout after 60000ms''))
           \<and> ((\<exists>t < 60000. settles_at (db query) = Some t) \<longrightarrow>
                fst (deleteNewsArticle e db ident)
                  = settle (await (db query)) ''Failed to delete news article: '' no_value))
       \<and> (let query =
                  chain (from_q ''officers'') [select ''*'', eq ''is_active'' (JBool True), order_q ''sort_order'' True]
          in (misses_bound 60000 (db query) \<longrightarrow>
                fst (getOfficers e db) = Throws (Error ''Request timeout after 60000ms''))
           \<and> ((\<exists>t < 60000. settles_at (db query) = Some t) \<longrightarrow>
                fst (getOfficers e db)
                  = settle (await (db query)) ''Failed to fetch officers: '' id))
       \<and> (let query = chain (from_q ''officers'') [insert_q officer, select ''*'', single]
          in (misses_bound 60000 (db query) \<longrightarrow>
                fst (createOfficer e db officer) = Throws (Error ''Request timeout after 60000ms''))
           \<and> ((\<exists>t < 60000. settles_at (db query) = Some t) \<longrightarrow>
                fst (createOfficer e db officer)
                  = settle (await (db query)) ''Failed to create officer: '' id))
       \<and> (let query =
                  chain (from_q ''officers'') [update officer, eq ''id'' (JStr ident), select ''*'', single]
          in (misses_bound 60000 (db query) \<longrightarrow>
                fst (updateOfficer e db ident officer) = Throws (Error ''Request timeout after 60000ms''))
           \<and> ((\<exists>t < 60000. settles_at (db query) = Some t) \<longrightarrow>
                fst (updateOfficer e db ident officer)
                  = settle (await (db query)) ''Failed to update officer: '' id))
       \<and> (let query = chain (from_q ''officers'') [delete, eq ''id'' (JStr ident)]
          in (misses_bound 60000 (db query) \<longrightarrow>
                fst (deleteOfficer e db ident) = Throws (Error ''Request timeout after 60000ms''))
           \<and> ((\<exists>t < 60000. settles_at (db query) = Some t) \<longrightarrow>
                fst (deleteOfficer e db ident)
                  = settle (await (db query)) ''Failed to delete officer: '' no_value))
       \<and> (let query =
                  chain (from_q ''testimonials'') [select ''*'', eq ''is_published'' (JBool True), order_q ''sort_order'' True]
          in (misses_bound 60000 (db query) \<longrightarrow>
                fst (getTestimonials e db) = Throws (Error ''Request timeout after 60000ms''))
           \<and> ((\<exists>t < 60000. settles_at (db query) = Some t) \<longrightarrow>
                fst (getTestimonials e db)
                  = settle (await (db query)) ''Failed to fetch testimonials: '' id))
       \<and> (let query =
                  chain (from_q ''testimonials'') [insert_q testimonial, select ''*'', single]
          in (misses_bound 60000 (db query) \<longrightarrow>
                fst (createTestimonial e db testimonial) = Throws (Error ''Request timeout after 60000ms''))
           \<and> ((\<exists>t < 60000. settles_at (db query) = Some t) \<longrightarrow>
                fst (createTestimonial e db testimonial)
                  = settle (await (db query)) ''Failed to create testimonial: '' id))
       \<and> (let query =
                  chain (from_q ''testimonials'') [update testimonial, eq ''id'' (JStr ident), select ''*'', single]
          in (misses_bound 60000 (db query) \<longrightarrow>
                fst (updateTestimonial e db ident testimonial) = Throws (Error ''Request timeout after 60000ms''))
           \<and> ((\<exists>t < 60000. settles_at (db query) = Some t) \<longrightarrow>
                fst (updateTestimonial e db ident testimonial)
                  = settle (await (db query)) ''Failed to update testimonial: '' id))
       \<and> (let query = chain (from_q ''testimonials'') [delete, eq ''id'' (JStr ident)]
          in (misses_bound 60000 (db query) \<longrightarrow>
                fst (deleteTestimonial e db ident) = Throws (Error ''Request timeout after 60000ms''))
           \<and> ((\<exists>t < 60000. settles_at (db query) = Some t) \<longrightarrow>
                fst (deleteTestimonial e db ident)
                  = settle (await (db query)) ''Failed to delete testimonial: '' no_value))
       \<and> (let query =
                  chain (from_q ''faq_items'') [select ''*'', eq ''is_published'' (JBool True), order_q ''sort_order'' True]
          in (misses_bound 60000 (db query) \<longrightarrow>
                fst (getFAQItems e db) = Throws (Error ''Request timeout after 60000ms''))
           \<and> ((\<exists>t < 60000. settles_at (db query) = Some t) \<longrightarrow>
                fst (getFAQItems e db)
                  = settle (await (db query)) ''Failed to fetch FAQ items: '' id))
       \<and> (let query = chain (from_q ''faq_items'') [insert_q faq, select ''*'', single]
          in (misses_bound 60000 (db query) \<longrightarrow>
                fst (createFAQItem e db faq) = Throws (Error ''Request timeout after 60000ms''))
           \<and> ((\<exists>t < 60000. settles_at (db query) = Some t) \<longrightarrow>
                fst (createFAQItem e db faq)
                  = settle (await (db query)) ''Failed to create FAQ item: '' id))
       \<and> (let query =
                  chain (from_q ''faq_items'') [update faq, eq ''id'' (JStr ident), select ''*'', single]
          in (misses_bound 60000 (db query) \<longrightarrow>
                fst (updateFAQItem e db ident faq) = Throws (Error ''Request timeout after 60000ms''))
           \<and> ((\<exists>t < 60000. settles_at (db query) = Some t) \<longrightarrow>
                fst (updateFAQItem e db ident faq)
                  = settle (await (db query)) ''Failed to update FAQ item: '' id))
       \<and> (let query = chain (from_q ''faq_items'') [delete, eq ''id'' (JStr ident)]
          in (misses_bound 60000 (db query) \<longrightarrow>
                fst (deleteFAQItem e db ident) = Throws (Error ''Request timeout after 60000ms''))
           \<and> ((\<exists>t < 60000. settles_at (db query) = Some t) \<longrightarrow>
                fst (deleteFAQItem e db ident)
                  = settle (await (db query)) ''Failed to delete FAQ item: '' no_value))
       \<and> (let query =
                  chain (from_q ''site_settings'') [select ''*'', order_q ''setting_key'' True]
          in (misses_bound 60000 (db query) \<longrightarrow>
                fst (getSiteSettings e db) = Throws (Error ''Request timeout after 60000ms''))
           \<and> ((\<exists>t < 60000. settles_at (db query) = Some t) \<longrightarrow>
                fst (getSiteSettings e db)
                  = settle (await (db query)) ''Failed to fetch site settings: '' id))
       \<and> (let query =
                  chain (from_q ''site_settings'')
                   [update [(''setting_value'', JStr val)], eq ''setting_key'' (JStr key),
                    select ''*'', single]
          in (misses_bound 60000 (db query) \<longrightarrow>
                fst (updateSiteSetting e db key val) = Throws (Error ''Request timeout after 60000ms''))
           \<and> ((\<exists>t < 60000. settles_at (db query) = Some t) \<longrightarrow>
                fst (updateSiteSetting e db key val)
                  = settle (await (db query)) ''Failed to update site setting: '' id))
       \<and> (let query =
                  order_q ''page_name'' True
                   (case pageFilter of
                      None \<Rightarrow> chain (from_q ''page_content'') [select ''*'']
                    | Some n \<Rightarrow>
                        if n \<noteq> []
                        then eq ''page_name'' (JStr n) (chain (from_q ''page_content'') [select ''*''])
                        else chain (from_q ''page_content'') [select ''*''])
          in (misses_bound 60000 (db query) \<longrightarrow>
                fst (getPageContent e db pageFilter) = Throws (Error ''Request timeout after 60000ms''))
           \<and> ((\<exists>t < 60000. settles_at (db query) = Some t) \<longrightarrow>
                fst (getPageContent e db pageFilter)
                  = settle (await (db query)) ''Failed to fetch page content: '' id))
       \<and> (let query =
                  chain (from_q ''page_content'')
                   [upsert [(''page_name'', JStr pageName), (''section_name'', JStr sectionName),
                            (''content'', JStr content), (''content_type'', JStr ''text'')],
                    select ''*'', single]
          in (misses_bound 60000 (db query) \<longrightarrow>
                fst (updatePageContent e db pageName sectionName content) = Throws (Error ''Request timeout after 60000ms''))
           \<and> ((\<exists>t < 60000. settles_at (db query) = Some t) \<longrightarrow>
                fst (updatePageContent e db pageName sectionName content)
                  = settle (await (db query)) ''Failed to update page content: '' id))
       \<and> (let query =
                  chain (from_q ''page_content'') [insert_q pageContent, select ''*'', single]
          in (misses_bound 60000 (db query) \<longrightarrow>
                fst (createPageContent e db pageContent) = Throws (Error ''Request timeout after 60000ms''))
           \<and> ((\<exists>t < 60000. settles_at (db query) = Some t) \<longrightarrow>
                fst (createPageContent e db pageContent)
                  = settle (await (db query)) ''Failed to create page content: '' id))
       \<and> ((\<forall>r. fetch r = Hangs) \<longrightarrow>
            fst (deleteUserAndProfile e (Returns (Some s, None)) fetch userId) = Hangs)"
proof -
  have api_profiles:
    "(let query =
                      chain (from_q ''member_profiles'') [select ''*'', eq ''user_id'' (JStr userId), limit 1]
              in (misses_bound 60000 (pdb query) \<longrightarrow>
                    fst (getMemberProfile e pdb userId) = Throws (Error ''Request timeout after 60000ms''))
               \<and> ((\<exists>t < 60000. settles_at (pdb query) = Some t) \<longrightarrow>
                    fst (getMemberProfile e pdb userId)
                      = settle (await (pdb query)) ''Failed to fetch profile: '' first_row))
           \<and> (let query =
                      chain (from_q ''member_profiles'')
                       [insert_q [(''user_id'', JStr userId),
                                  (''full_name'', JStr (trim fullName)),
                                  (''role'', JStr ''member''),
                                  (''status'', JStr ''pending''),
                                  (''registration_date'', JStr (iso_string (clock 0))),
                                  (''email_verified'', JBool False)],
                        select ''*'', single]
              in (misses_bound 60000 (pdb query) \<longrightarrow>
                    fst (createMemberProfile e pdb clock userId fullName) = Throws (Error ''Request timeout after 60000ms''))
               \<and> ((\<exists>t < 60000. settles_at (pdb query) = Some t) \<longrightarrow>
                    fst (createMemberProfile e pdb clock userId fullName)
                      = settle (await (pdb query)) ''Failed to create profile: '' id))
           \<and> (let query =
                      chain (from_q ''member_profiles'') [insert_q newProfile, select ''*'', single]
              in (misses_bound 60000 (pdb query) \<longrightarrow>
                    fst (adminCreateMemberProfile e pdb newProfile) = Throws (Error ''Request timeout after 60000ms''))
               \<and> ((\<exists>t < 60000. settles_at (pdb query) = Some t) \<longrightarrow>
                    fst (adminCreateMemberProfile e pdb newProfile)
                      = settle (await (pdb query)) ''Failed to create profile: '' id))
           \<and> (let query =
                      chain (from_q ''member_profiles'') [select ''*'', order_q ''full_name'' True]
              in (misses_bound 90000 (pdb query) \<longrightarrow>
                    fst (getAllMembers e pdb) = Throws (Error ''Request timeout after 90000ms''))
               \<and> ((\<exists>t < 90000. settles_at (pdb query) = Some t) \<longrightarrow>
                    fst (getAllMembers e pdb)
                      = settle (await (pdb query)) ''Failed to fetch members: '' id))
           \<and> (let query =
                      chain (from_q ''member_profiles'') [update changes, eq ''user_id'' (JStr userId), select ''*'', single]
              in (misses_bound 60000 (pdb query) \<longrightarrow>
                    fst (updateMemberProfile e pdb userId changes) = Throws (Error ''Request timeout after 60000ms''))
               \<and> ((\<exists>t < 60000. settles_at (pdb query) = Some t) \<longrightarrow>
                    fst (updateMemberProfile e pdb userId changes)
                      = settle (await (pdb query)) ''Failed to update profile: '' id))
           \<and> (let query =
                      chain (from_q ''member_profiles'') [delete, eq ''user_id'' (JStr userId)]
              in (misses_bound 60000 (pdb query) \<longrightarrow>
                    fst (deleteMemberProfile e pdb userId) = Throws (Error ''Request timeout after 60000ms''))
               \<and> ((\<exists>t < 60000. settles_at (pdb query) = Some t) \<longrightarrow>
                    fst (deleteMemberProfile e pdb userId)
                      = settle (await (pdb query)) ''Failed to delete profile: '' no_value))"
    using assms
    by (simp add: api_defs cms_defs Let_def withTimeout_late cms_withTimeout_late
          withTimeout_in_time cms_withTimeout_in_time settle_Throws
          timeout_error_60000 [symmetric] timeout_error_90000 [symmetric])
  have api_documents:
    "(let query =
                      (case category of
                        None \<Rightarrow> chain (from_q ''lodge_documents'') [select ''*'', order_q ''created_at'' False]
                     | Some c \<Rightarrow>
                          if c \<noteq> []
                          then eq ''category'' (JStr c)
                                 (chain (from_q ''lodge_documents'')
                                    [select ''*'', order_q ''created_at'' False])
                          else chain (from_q ''lodge_documents'')
                                 [select ''*'', order_q ''created_at'' False])
              in (misses_bound 60000 (db query) \<longrightarrow>
                    fst (getLodgeDocuments e db category) = Throws (Error ''Request timeout after 60000ms''))
               \<and> ((\<exists>t < 60000. settles_at (db query) = Some t) \<longrightarrow>
                    fst (getLodgeDocuments e db category)
                      = settle (await (db query)) ''Failed to fetch documents: '' id))
           \<and> (let query =
                      chain (from_q ''lodge_documents'') [insert_q document, select ''*'', single]
              in (misses_bound 60000 (db query) \<longrightarrow>
                    fst (createDocument e db document) = Throws (Error ''Request timeout after 60000ms''))
               \<and> ((\<exists>t < 60000. settles_at (db query) = Some t) \<longrightarrow>
                    fst (createDocument e db document)
                      = settle (await (db query)) ''Failed to create document: '' id))
           \<and> (let query =
                      chain (from_q ''meeting_minutes'') [select ''*'', order_q ''meeting_date'' False]
              in (misses_bound 60000 (db query) \<longrightarrow>
                    fst (getMeetingMinutes e db) = Throws (Error ''Request timeout after 60000ms''))
               \<and> ((\<exists>t < 60000. settles_at (db query) = Some t) \<longrightarrow>
                    fst (getMeetingMinutes e db)
                      = settle (await (db query)) ''Failed to fetch meeting minutes: '' id))
           \<and> (let query =
                      chain (from_q ''meeting_minutes'') [insert_q minutes, select ''*'', single]
              in (misses_bound 60000 (db query) \<longrightarrow>
                    fst (createMinutes e db minutes) = Throws (Error ''Request timeout after 60000ms''))
               \<and> ((\<exists>t < 60000. settles_at (db query) = Some t) \<longrightarrow>
                    fst (createMinutes e db minutes)
                      = settle (await (db query)) ''Failed to create meeting minutes: '' id))"
    using assms
    by (simp add: api_defs cms_defs Let_def withTimeout_late cms_withTimeout_late
          withTimeout_in_time cms_withTimeout_in_time settle_Throws
          timeout_error_60000 [symmetric] timeout_error_90000 [symmetric])
  have cms_events_news:
    "(let query = chain (from_q ''events'') [select ''*'', order_q ''event_date'' True]
              in (misses_bound 60000 (db query) \<longrightarrow>
                    fst (getEvents e db) = Throws (Error ''Request timeout after 60000ms''))
               \<and> ((\<exists>t < 60000. settles_at (db query) = Some t) \<longrightarrow>
                    fst (getEvents e db)
                      = settle (await (db query)) ''Failed to fetch events: '' id))
           \<and> (let query =
                      chain (from_q ''events'')
                       [select ''*'', eq ''is_past_event'' (JBool False),
                        gte ''event_date'' (JStr (iso_string (clock 0))),
                        order_q ''event_date'' True, limit 1]
              in (misses_bound 60000 (db query) \<longrightarrow>
                    fst (getNextUpcomingEvent e db clock) = Throws (Error ''Request timeout after 60000ms''))
               \<and> ((\<exists>t < 60000. settles_at (db query) = Some t) \<longrightarrow>
                    fst (getNextUpcomingEvent e db clock)
                      = settle (await (db query)) ''Failed to fetch next upcoming event: '' first_row))
           \<and> (let query = chain (from_q ''events'') [insert_q event, select ''*'', single]
              in (misses_bound 60000 (db query) \<longrightarrow>
                    fst (createEvent e db event) = Throws (Error ''Request timeout after 60000ms''))
               \<and> ((\<exists>t < 60000. settles_at (db query) = Some t) \<longrightarrow>
                    fst (createEvent e db event)
                      = settle (await (db query)) ''Failed to create event: '' id))
           \<and> (let query =
                      chain (from_q ''events'') [update event, eq ''id'' (JStr ident), select ''*'', single]
              in (misses_bound 60000 (db query) \<longrightarrow>
                    fst (updateEvent e db ident event) = Throws (Error ''Request timeout after 60000ms''))
               \<and> ((\<exists>t < 60000. settles_at (db query) = Some t) \<longrightarrow>
                    fst (updateEvent e db ident event)
                      = settle (await (db query)) ''Failed to update event: '' id))
           \<and> (let query = chain (from_q ''events'') [delete, eq ''id'' (JStr ident)]
              in (misses_bound 60000 (db query) \<longrightarrow>
                    fst (deleteEvent e db ident) = Throws (Error ''Request timeout after 60000ms''))
               \<and> ((\<exists>t < 60000. settles_at (db query) = Some t) \<longrightarrow>
                    fst (deleteEvent e db ident)
                      = settle (await (db query)) ''Failed to delete event: '' no_value))
           \<and> (let query =
                      chain (from_q ''news_articles'') [select ''*'', order_q ''publish_date'' False]
              in (misses_bound 60000 (db query) \<longrightarrow>
                    fst (getNewsArticles e db) = Throws (Error ''Request timeout after 60000ms''))
               \<and> ((\<exists>t < 60000. settles_at (db query) = Some t) \<longrightarrow>
                    fst (getNewsArticles e db)
                      = settle (await (db query)) ''Failed to fetch news articles: '' id))
           \<and> (let query =
                      chain (from_q ''news_articles'')
                       [insert_q
                          (spread_with ''publish_date''
                             (case map_of article ''publish_date'' of
                                Some v \<Rightarrow> if truthy v then v
                                          else JStr (before_T (iso_string (clock 0)))
                              | None \<Rightarrow> JStr (before_T (iso_string (clock 0))))
                             article),
                        select ''*'', single]
              in (misses_bound 60000 (db query) \<longrightarrow>
                    fst (createNewsArticle e db clock article) = Throws (Error ''Request timeout after 60000ms''))
               \<and> ((\<exists>t < 60000. settles_at (db query) = Some t) \<longrightarrow>
                    fst (createNewsArticle e db clock article)
                      = settle (await (db query)) ''Failed to create news article: '' id))
           \<and> (let query =
                      chain (from_q ''news_articles'') [update article, eq ''id'' (JStr ident), select ''*'', single]
              in (misses_bound 60000 (db query) \<longrightarrow>
                    fst (updateNewsArticle e db ident article) = Throws (Error ''Request timeout after 60000ms''))
               \<and> ((\<exists>t < 60000. settles_at (db query) = Some t) \<longrightarrow>
                    fst (updateNewsArticle e db ident article)
                      = settle (await (db query)) ''Failed to update news article: '' id))
           \<and> (let query = chain (from_q ''news_articles'') [delete, eq ''id'' (JStr ident)]
              in (misses_bound 60000 (db query) \<longrightarrow>
                    fst (deleteNewsArticle e db ident) = Throws (Error ''Request timeout after 60000ms''))
               \<and> ((\<exists>t < 60000. settles_at (db query) = Some t) \<longrightarrow>
                    fst (deleteNewsArticle e db ident)
                      = settle (await (db query)) ''Failed to delete news article: '' no_value))"
    using assms
    by (simp add: api_defs cms_defs Let_def withTimeout_late cms_withTimeout_late
          withTimeout_in_time cms_withTimeout_in_time settle_Throws
          timeout_error_60000 [symmetric] timeout_error_90000 [symmetric])
  have cms_officers_testimonials:
    "(let query =
                      chain (from_q ''officers'') [select ''*'', eq ''is_active'' (JBool True), order_q ''sort_order'' True]
              in (misses_bound 60000 (db query) \<longrightarrow>
                    fst (getOfficers e db) = Throws (Error ''Request timeout after 60000ms''))
               \<and> ((\<exists>t < 60000. settles_at (db query) = Some t) \<longrightarrow>
                    fst (getOfficers e db)
                      = settle (await (db query)) ''Failed to fetch officers: '' id))
           \<and> (let query = chain (from_q ''officers'') [insert_q officer, select ''*'', single]
              in (misses_bound 60000 (db query) \<longrightarrow>
                    fst (createOfficer e db officer) = Throws (Error ''Request timeout after 60000ms''))
               \<and> ((\<exists>t < 60000. settles_at (db query) = Some t) \<longrightarrow>
                    fst (createOfficer e db officer)
                      = settle (await (db query)) ''Failed to create officer: '' id))
           \<and> (let query =
                      chain (from_q ''officers'') [update officer, eq ''id'' (JStr ident), select ''*'', single]
              in (misses_bound 60000 (db query) \<longrightarrow>
                    fst (updateOfficer e db ident officer) = Throws (Error ''Request timeout after 60000ms''))
               \<and> ((\<exists>t < 60000. settles_at (db query) = Some t) \<longrightarrow>
                    fst (updateOfficer e db ident officer)
                      = settle (await (db query)) ''Failed to update officer: '' id))
           \<and> (let query = chain (from_q ''officers'') [delete, eq ''id'' (JStr ident)]
              in (misses_bound 60000 (db query) \<longrightarrow>
                    fst (deleteOfficer e db ident) = Throws (Error ''Request timeout after 60000ms''))
               \<and> ((\<exists>t < 60000. settles_at (db query) = Some t) \<longrightarrow>
                    fst (deleteOfficer e db ident)
                      = settle (await (db query)) ''Failed to delete officer: '' no_value))
           \<and> (let query =
                      chain (from_q ''testimonials'') [select ''*'', eq ''is_published'' (JBool True), order_q ''sort_order'' True]
              in (misses_bound 60000 (db query) \<longrightarrow>
                    fst (getTestimonials e db) = Throws (Error ''Request timeout after 60000ms''))
               \<and> ((\<exists>t < 60000. settles_at (db query) = Some t) \<longrightarrow>
                    fst (getTestimonials e db)
                      = settle (await (db query)) ''Failed to fetch testimonials: '' id))
           \<and> (let query =
                      chain (from_q ''testimonials'') [insert_q testimonial, select ''*'', single]
              in (misses_bound 60000 (db query) \<longrightarrow>
                    fst (createTestimonial e db testimonial) = Throws (Error ''Request timeout after 60000ms''))
               \<and> ((\<exists>t < 60000. settles_at (db query) = Some t) \<longrightarrow>
                    fst (createTestimonial e db testimonial)
                      = settle (await (db query)) ''Failed to create testimonial: '' id))
           \<and> (let query =
                      chain (from_q ''testimonials'') [update testimonial, eq ''id'' (JStr ident), select ''*'', single]
              in (misses_bound 60000 (db query) \<longrightarrow>
                    fst (updateTestimonial e db ident testimonial) = Throws (Error ''Request timeout after 60000ms''))
               \<and> ((\<exists>t < 60000. settles_at (db query) = Some t) \<longrightarrow>
                    fst (updateTestimonial e db ident testimonial)
                      = settle (await (db query)) ''Failed to update testimonial: '' id))
           \<and> (let query = chain (from_q ''testimonials'') [delete, eq ''id'' (JStr ident)]
              in (misses_bound 60000 (db query) \<longrightarrow>
                    fst (deleteTestimonial e db ident) = Throws (Error ''Request timeout after 60000ms''))
               \<and> ((\<exists>t < 60000. settles_at (db query) = Some t) \<longrightarrow>
                    fst (deleteTestimonial e db ident)
                      = settle (await (db query)) ''Failed to delete testimonial: '' no_value))"
    using assms
    by (simp add: api_defs cms_defs Let_def withTimeout_late cms_withTimeout_late
          withTimeout_in_time cms_withTimeout_in_time settle_Throws
          timeout_error_60000 [symmetric] timeout_error_90000 [symmetric])
  have cms_faq_settings_pages:
    "(let query =
                      chain (from_q ''faq_items'') [select ''*'', eq ''is_published'' (JBool True), order_q ''sort_order'' True]
              in (misses_bound 60000 (db query) \<longrightarrow>
                    fst (getFAQItems e db) = Throws (Error ''Request timeout after 60000ms''))
               \<and> ((\<exists>t < 60000. settles_at (db query) = Some t) \<longrightarrow>
                    fst (getFAQItems e db)
                      = settle (await (db query)) ''Failed to fetch FAQ items: '' id))
           \<and> (let query = chain (from_q ''faq_items'') [insert_q faq, select ''*'', single]
              in (misses_bound 60000 (db query) \<longrightarrow>
                    fst (createFAQItem e db faq) = Throws (Error ''Request timeout after 60000ms''))
               \<and> ((\<exists>t < 60000. settles_at (db query) = Some t) \<longrightarrow>
                    fst (createFAQItem e db faq)
                      = settle (await (db query)) ''Failed to create FAQ item: '' id))
           \<and> (let query =
                      chain (from_q ''faq_items'') [update faq, eq ''id'' (JStr ident), select ''*'', single]
              in (misses_bound 60000 (db query) \<longrightarrow>
                    fst (updateFAQItem e db ident faq) = Throws (Error ''Request timeout after 60000ms''))
               \<and> ((\<exists>t < 60000. settles_at (db query) = Some t) \<longrightarrow>
                    fst (updateFAQItem e db ident faq)
                      = settle (await (db query)) ''Failed to update FAQ item: '' id))
           \<and> (let query = chain (from_q ''faq_items'') [delete, eq ''id'' (JStr ident)]
              in (misses_bound 60000 (db query) \<longrightarrow>
                    fst (deleteFAQItem e db ident) = Throws (Error ''Request timeout after 60000ms''))
               \<and> ((\<exists>t < 60000. settles_at (db query) = Some t) \<longrightarrow>
                    fst (deleteFAQItem e db ident)
                      = settle (await (db query)) ''Failed to delete FAQ item: '' no_value))
           \<and> (let query =
                      chain (from_q ''site_settings'') [select ''*'', order_q ''setting_key'' True]
              in (misses_bound 60000 (db query) \<longrightarrow>
                    fst (getSiteSettings e db) = Throws (Error ''Request timeout after 60000ms''))
               \<and> ((\<exists>t < 60000. settles_at (db query) = Some t) \<longrightarrow>
                    fst (getSiteSettings e db)
                      = settle (await (db query)) ''Failed to fetch site settings: '' id))
           \<and> (let query =
                      chain (from_q ''site_settings'')
                       [update [(''setting_value'', JStr val)], eq ''setting_key'' (JStr key),
                        select ''*'', single]
              in (misses_bound 60000 (db query) \<longrightarrow>
                    fst (updateSiteSetting e db key val) = Throws (Error ''Request timeout after 60000ms''))
               \<and> ((\<exists>t < 60000. settles_at (db query) = Some t) \<longrightarrow>
                    fst (updateSiteSetting e db key val)
                      = settle (await (db query)) ''Failed to update site setting: '' id))
           \<and> (let query =
                      order_q ''page_name'' True
                       (case pageFilter of
                          None \<Rightarrow> chain (from_q ''page_content'') [select ''*'']
                        | Some n \<Rightarrow>
                            if n \<noteq> []
                            then eq ''page_name'' (JStr n) (chain (from_q ''page_content'') [select ''*''])
                            else chain (from_q ''page_content'') [select ''*''])
              in (misses_bound 60000 (db query) \<longrightarrow>
                    fst (getPageContent e db pageFilter) = Throws (Error ''Request timeout after 60000ms''))
               \<and> ((\<exists>t < 60000. settles_at (db query) = Some t) \<longrightarrow>
                    fst (getPageContent e db pageFilter)
                      = settle (await (db query)) ''Failed to fetch page content: '' id))
           \<and> (let query =
                      chain (from_q ''page_content'')
                       [upsert [(''page_name'', JStr pageName), (''section_name'', JStr sectionName),
                                (''content'', JStr content), (''content_type'', JStr ''text'')],
                        select ''*'', single]
              in (misses_bound 60000 (db query) \<longrightarrow>
                    fst (updatePageContent e db pageName sectionName content) = Throws (Error ''Request timeout after 60000ms''))
               \<and> ((\<exists>t < 60000. settles_at (db query) = Some t) \<longrightarrow>
                    fst (updatePageContent e db pageName sectionName content)
                      = settle (await (db query)) ''Failed to update page content: '' id))
           \<and> (let query =
                      chain (from_q ''page_content'') [insert_q pageContent, select ''*'', single]
              in (misses_bound 60000 (db query) \<longrightarrow>
                    fst (createPageContent e db pageContent) = Throws (Error ''Request timeout after 60000ms''))
               \<and> ((\<exists>t < 60000. settles_at (db query) = Some t) \<longrightarrow>
                    fst (createPageContent e db pageContent)
                      = settle (await (db query)) ''Failed to create page content: '' id))"
    using assms
    by (simp add: api_defs cms_defs Let_def withTimeout_late cms_withTimeout_late
          withTimeout_in_time cms_withTimeout_in_time settle_Throws
          timeout_error_60000 [symmetric] timeout_error_90000 [symmetric])
  have hang: "(\<forall>r. fetch r = Hangs) \<longrightarrow>
      fst (deleteUserAndProfile e (Returns (Some s, None)) fetch userId) = Hangs"
    by (simp add: deleteUserAndProfile_def Let_def)
  from api_profiles api_documents cms_events_news cms_officers_testimonials cms_faq_settings_pages hang show ?thesis by blast
qed

theorem timeout_bounds_witness:
  "\<not> shouldUseDemoMode live_env
   \<and> (\<forall>q. misses_bound 60000 (slow_db q))
   \<and> fst (getMemberProfile live_env slow_db ''u7'')
       = Throws (Error ''Request timeout after 60000ms'')
   \<and> fst (getMeetingMinutes live_env slow_db)
       = Throws (Error ''Request timeout after 60000ms'')
   \<and> fst (getOfficers live_env slow_db) = Throws (Error ''Request timeout after 60000ms'')
   \<and> (\<forall>q. \<exists>t < 90000. settles_at (slow_db q) = Some t)
   \<and> fst (getAllMembers live_env slow_db) = Returns (Rows [real_profile])
   \<and> (\<forall>q. \<exists>t < 60000. settles_at (quick_db q) = Some t)
   \<and> fst (getMemberProfile live_env quick_db ''u7'') = Returns (Some real_profile)
   \<and> fst (getMeetingMinutes live_env quick_db) = Returns (Rows [real_profile])
   \<and> fst (getOfficers live_env quick_db) = Returns (Rows [real_profile])
   \<and> fst (deleteEvent live_env quick_db ''ev-1'') = Returns ()
   \<and> (\<forall>q. misses_bound 90000 (silent_db q))
   \<and> fst (getAllMembers live_env silent_db) = Throws (Error ''Request timeout after 90000ms'')
   \<and> (\<forall>r. silent_fetch r = Hangs)
   \<and> fst (deleteUserAndProfile live_env (Returns (Some member_session, None)) silent_fetch ''u7'')
       = Hangs"
proof -
  have live: "\<not> shouldUseDemoMode live_env"
    by (simp add: shouldUseDemoMode_def falsy_def live_env_def)
  have late: "\<forall>q. misses_bound 60000 (slow_db q)"
    by (simp add: misses_bound_def slow_db_def)
  have early: "\<forall>q. \<exists>t < 90000. settles_at (slow_db q) = Some t"
    by (simp add: slow_db_def)
  have quick: "\<forall>q. \<exists>t < 60000. settles_at (quick_db q) = Some t"
    by (simp add: quick_db_def)
  have never: "\<forall>q. misses_bound 90000 (silent_db q)"
    by (simp add: misses_bound_def silent_db_def)
  have hangs: "\<forall>r. silent_fetch r = Hangs"
    by (simp add: silent_fetch_def)
  note slow = timeout_bounds [OF live, where pdb = slow_db and db = slow_db and userId = "''u7''"]
  note fast = timeout_bounds [OF live, where pdb = quick_db and db = quick_db
                                and userId = "''u7''" and ident = "''ev-1''"]
  note silent = timeout_bounds [OF live, where pdb = silent_db and db = silent_db
                                  and fetch = silent_fetch and s = member_session
                                  and userId = "''u7''"]
  have s1: "fst (getMemberProfile live_env slow_db ''u7'')
              = Throws (Error ''Request timeout after 60000ms'')"
    and s2: "fst (getMeetingMinutes live_env slow_db)
              = Throws (Error ''Request timeout after 60000ms'')"
    and s3: "fst (getOfficers live_env slow_db) = Throws (Error ''Request timeout after 60000ms'')"
    using slow late by (simp_all add: Let_def)
  have s4: "fst (getAllMembers live_env slow_db) = Returns (Rows [real_profile])"
    using slow early by (simp add: Let_def slow_db_def settle_def)
  have q1: "fst (getMemberProfile live_env quick_db ''u7'') = Returns (Some real_profile)"
    and q2: "fst (getMeetingMinutes live_env quick_db) = Returns (Rows [real_profile])"
    and q3: "fst (getOfficers live_env quick_db) = Returns (Rows [real_profile])"
    and q4: "fst (deleteEvent live_env quick_db ''ev-1'') = Returns ()"
    using fast quick by (simp_all add: Let_def quick_db_def settle_def)
  have s5: "fst (getAllMembers live_env silent_db)
              = Throws (Error ''Request timeout after 90000ms'')"
    using silent never by (simp add: Let_def)
  have s6: "fst (deleteUserAndProfile live_env (Returns (Some member_session, None))
                   silent_fetch ''u7'') = Hangs"
    using silent hangs by simp
  show ?thesis
    using live late early quick never hangs s1 s2 s3 s4 q1 q2 q3 q4 s5 s6 by blast
qed

text \<open>
  C5. \<^verbatim>\<open>withTimeout\<close> (of either module) always settles. If the wrapped promise has
  not settled when \<open>timeoutMs\<close> milliseconds have passed --- it stays pending, or settles
  later --- the awaited result is the thrown error "Request timeout after <timeoutMs>ms":
  no value is returned, and the operation built on it throws that error. If the wrapped
  promise settles before the bound, the awaited result is the promise's own value or error.
  Without a second argument the bound is 90000 in \<^verbatim>\<open>api\<close> and 60000 in
  \<^verbatim>\<open>cmsApi\<close>.
\<close>

theorem withTimeout_race:
  "withTimeout promise (Some timeoutMs) \<noteq> Pending
   \<and> cms_withTimeout promise (Some timeoutMs) \<noteq> Pending
   \<and> (misses_bound timeoutMs promise \<longrightarrow>
        await (withTimeout promise (Some timeoutMs))
          = Throws (Error (''Request timeout after '' @ string_of_nat timeoutMs @ ''ms''))
      \<and> await (cms_withTimeout promise (Some timeoutMs))
          = Throws (Error (''Request timeout after '' @ string_of_nat timeoutMs @ ''ms''))
      \<and> (\<forall>v. await (withTimeout promise (Some timeoutMs)) \<noteq> Returns v)
      \<and> (\<forall>v. await (cms_withTimeout promise (Some timeoutMs)) \<noteq> Returns v)
      \<and> settle (await (withTimeout promise (Some timeoutMs))) failure ret
          = Throws (Error (''Request timeout after '' @ string_of_nat timeoutMs @ ''ms''))
      \<and> settle (await (cms_withTimeout promise (Some timeoutMs))) failure ret
          = Throws (Error (''Request timeout after '' @ string_of_nat timeoutMs @ ''ms'')))
   \<and> ((\<exists>t < timeoutMs. settles_at promise = Some t) \<longrightarrow>
        await (withTimeout promise (Some timeoutMs)) = await promise
      \<and> await (cms_withTimeout promise (Some timeoutMs)) = await promise)
   \<and> withTimeout promise None = withTimeout promise (Some 90000)
   \<and> cms_withTimeout promise None = cms_withTimeout promise (Some 60000)"
proof -
  have settles: "withTimeout promise (Some timeoutMs) \<noteq> Pending"
    "cms_withTimeout promise (Some timeoutMs) \<noteq> Pending"
    by (simp_all add: withTimeout_def cms_withTimeout_def race_timer_settles)
  have late: "misses_bound timeoutMs promise \<Longrightarrow>
      withTimeout promise (Some timeoutMs) = Rejects timeoutMs (timeout_error timeoutMs)
    \<and> cms_withTimeout promise (Some timeoutMs) = Rejects timeoutMs (timeout_error timeoutMs)"
    by (simp add: withTimeout_late cms_withTimeout_late)
  have early: "\<exists>t < timeoutMs. settles_at promise = Some t \<Longrightarrow>
      withTimeout promise (Some timeoutMs) = promise
    \<and> cms_withTimeout promise (Some timeoutMs) = promise"
    by (auto simp: withTimeout_def cms_withTimeout_def race_timer_early)
  have defaults: "withTimeout promise None = withTimeout promise (Some 90000)"
    "cms_withTimeout promise None = cms_withTimeout promise (Some 60000)"
    by (simp_all add: withTimeout_def cms_withTimeout_def)
  show ?thesis
    using settles late early defaults
    by (auto simp: timeout_error_def settle_Throws)
qed

theorem withTimeout_race_witness:
  "misses_bound 60000 (slow_db (from_q ''member_profiles''))
   \<and> await (withTimeout (slow_db (from_q ''member_profiles'')) (Some 60000))
       = Throws (Error ''Request timeout after 60000ms'')
   \<and> (\<exists>t < 60000. settles_at (quick_db (from_q ''member_profiles'')) = Some t)
   \<and> await (withTimeout (quick_db (from_q ''member_profiles'')) (Some 60000))
       = Returns \<lparr> resp_data = Rows [real_profile], resp_error = None \<rparr>
   \<and> (\<exists>t < 60000. settles_at (unreachable_db (from_q ''member_profiles'')) = Some t)
   \<and> await (cms_withTimeout (unreachable_db (from_q ''member_profiles'')) (Some 60000))
       = Throws (Error ''TypeError: Failed to fetch'')"
proof -
  let ?q = "from_q ''member_profiles''"
  have late: "misses_bound 60000 (slow_db ?q)"
    by (simp add: misses_bound_def slow_db_def)
  have early: "\<exists>t < 60000. settles_at (quick_db ?q) = Some t"
    "\<exists>t < 60000. settles_at (unreachable_db ?q) = Some t"
    by (simp_all add: quick_db_def unreachable_db_def)
  have own: "await (quick_db ?q) = Returns \<lparr> resp_data = Rows [real_profile], resp_error = None \<rparr>"
    "await (unreachable_db ?q) = Throws (Error ''TypeError: Failed to fetch'')"
    by (simp_all add: quick_db_def unreachable_db_def)
  have t1: "await (withTimeout (slow_db ?q) (Some 60000))
              = Throws (Error (''Request timeout after '' @ string_of_nat 60000 @ ''ms''))"
    using late withTimeout_race [of "slow_db ?q" 60000] by blast
  have t2: "await (withTimeout (quick_db ?q) (Some 60000)) = await (quick_db ?q)"
    using early(1) withTimeout_race [of "quick_db ?q" 60000] by blast
  have t3: "await (cms_withTimeout (unreachable_db ?q) (Some 60000)) = await (unreachable_db ?q)"
    using early(2) withTimeout_race [of "unreachable_db ?q" 60000] by blast
  show ?thesis
    using late early by (simp add: t1 t2 t3 own string_of_nat_60000)
qed

end
